theory Spec2Isabelle
  imports Complex_Main
begin

section \<open>Python values\<close>

text \<open>
  The library is dynamically typed: the fields of a token response, the message of an
  error and the scopes of a credential hold whatever Python object they were given.
  \<open>pyval\<close> is the part of Python's object universe the library handles: \<open>None\<close>,
  booleans, integers, floats, strings, lists, dictionaries (in iteration order, looked
  up with \<open>map_of\<close>) and sets of strings. A decoded JSON body is a \<open>pyval\<close> without sets.
  A float is a rational number, an infinity or not-a-number, which the JSON decoder
  also accepts. A character of a string is a code point below 256.
\<close>

datatype pyfloat = FloatVal rat | FloatInf | FloatNegInf | FloatNaN

datatype pyval =
    PNone
  | PBool bool
  | PInt int
  | PFloat pyfloat
  | PStr string
  | PList "pyval list"
  | PDict "(string \<times> pyval) list"
  | PSet "string set"

text \<open>Python's truth value of an object (\<open>if x:\<close>, \<open>not x\<close>).\<close>

fun py_truthy :: "pyval \<Rightarrow> bool" where
  "py_truthy PNone = False"
| "py_truthy (PBool b) = b"
| "py_truthy (PInt n) = (n \<noteq> 0)"
| "py_truthy (PFloat f) = (f \<noteq> FloatVal 0)"
| "py_truthy (PStr s) = (s \<noteq> [])"
| "py_truthy (PList xs) = (xs \<noteq> [])"
| "py_truthy (PDict kvs) = (kvs \<noteq> [])"
| "py_truthy (PSet S) = (S \<noteq> {})"

text \<open>\<open>d.get(k)\<close> on a dictionary: the value, or \<open>None\<close> when the key is missing.\<close>

definition dict_get :: "(string \<times> pyval) list \<Rightarrow> string \<Rightarrow> pyval" where
  "dict_get kvs k = (case map_of kvs k of None \<Rightarrow> PNone | Some v \<Rightarrow> v)"

text \<open>\<open>k in d\<close> on a dictionary.\<close>

definition dict_has :: "(string \<times> pyval) list \<Rightarrow> string \<Rightarrow> bool" where
  "dict_has kvs k = (map_of kvs k \<noteq> None)"

section \<open>HTTP responses and the world\<close>

text \<open>
  A \<open>requests\<close> response, as far as the library reads it: the status code, the reason
  phrase, the headers (names in lower case) and what \<open>response.json()\<close> returns, with
  \<open>None\<close> for a body that does not decode (the call raises \<open>ValueError\<close>).
\<close>

record response =
  status_code :: int
  reason :: string
  headers :: "(string \<times> string) list"
  json_body :: "pyval option"

text \<open>The body of a token request (\<open>args\<close> of \<open>request_access_token\<close>).\<close>

record token_args =
  arg_grant_type :: string
  arg_client_id :: "string option"
  arg_client_secret :: "string option"
  arg_scope :: pyval
  arg_code :: "string option"
  arg_refresh_token :: pyval

text \<open>
  The HTTP requests the library sends: the POST to the token endpoint, with its
  Basic-auth pair and its form body; the POST to the revoke endpoint, with its \<open>token\<close>
  parameter; and a request to a resource endpoint, with its method, host, path,
  arguments and Bearer token.
\<close>

datatype http_request =
    TokenPost "string option \<times> string option" token_args
  | RevokePost pyval
  | ApiRequest string string string pyval pyval

text \<open>
  The world outside the library: the clock that \<open>int(time())\<close> reads, in whole seconds,
  and the requests put on the wire so far, in order. The clock does not move during one
  call of the library.
\<close>

record world =
  clock :: int
  wire :: "http_request list"

section \<open>Errors\<close>

text \<open>
  One entry of an error's detail list: an \<open>ErrorDetails(parameter, title)\<close> object, or
  the bare object that \<open>e.append(original_body.get('error_description'))\<close> stores.
\<close>

datatype detail = ErrorDetails string pyval | Bare pyval

text \<open>
  \<open>LyftIllegalState\<close> carries only a message. Each place of the source that raises it is
  a constructor here, and \<open>illegal_state_message\<close> gives the text the source formats.
\<close>

datatype illegal_state =
    MissingStateParameter
  | MissingStateToken
  | CSRFError string string
  | CodeAndErrorBothSet
  | NeitherCodeNorError
  | AuthorizationError string
  | NoRefreshTokens string
  | SessionWithoutCredential

fun illegal_state_message :: "illegal_state \<Rightarrow> string" where
  "illegal_state_message MissingStateParameter = ''Bad Request. Missing state parameter.''"
| "illegal_state_message MissingStateToken = ''Missing CSRF State Token in session.''"
| "illegal_state_message (CSRFError expected got) =
     ''CSRF Error. Expected '' @ expected @ '', got '' @ got"
| "illegal_state_message CodeAndErrorBothSet =
     ''Code and Error query params code and error can not both be set.''"
| "illegal_state_message NeitherCodeNorError =
     ''Neither query parameter code or error is set.''"
| "illegal_state_message (AuthorizationError e) = e"
| "illegal_state_message (NoRefreshTokens g) =
     g @ '' Grant Type does not support Refresh Tokens.''"
| "illegal_state_message SessionWithoutCredential =
     ''Session must have OAuth 2.0 Credentials.''"

text \<open>
  Everything a call can raise: the four errors of the library (\<open>ClientError\<close> with its
  message, details, meta and response; \<open>ServerError\<close> with at most one detail) and the
  Python errors that the source does not catch.
\<close>

datatype exn =
    ClientError pyval "detail list" pyval response
  | ServerError pyval "detail option" pyval response
  | UnknownHttpError response
  | LyftIllegalState illegal_state
  | KeyError string
  | AttributeError
  | TypeError
  | ValueError
  | OverflowError

fun in_taxonomy :: "exn \<Rightarrow> bool" where
  "in_taxonomy (ClientError m es meta r) = True"
| "in_taxonomy (ServerError m e meta r) = True"
| "in_taxonomy (UnknownHttpError r) = True"
| "in_taxonomy (LyftIllegalState s) = True"
| "in_taxonomy (KeyError k) = False"
| "in_taxonomy AttributeError = False"
| "in_taxonomy TypeError = False"
| "in_taxonomy ValueError = False"
| "in_taxonomy OverflowError = False"

section \<open>session.py: credentials\<close>

text \<open>
  \<open>OAuth2Credential\<close>. The attribute \<open>expires_in_seconds\<close> holds what the constructor
  stores there: the absolute time of expiry, \<open>self._now() + int(expires_in_seconds)\<close>.
  The identifiers and the grant type are strings, as documented; the tokens and the
  scopes are whatever the caller or the token response supplied.
\<close>

record OAuth2Credential =
  client_id :: string
  access_token :: pyval
  expires_in_seconds :: int
  scopes :: pyval
  grant_type :: string
  client_secret :: "string option"
  refresh_token :: pyval

definition now :: "world \<Rightarrow> int" where
  "now w = clock w"

text \<open>The constructor, for an \<open>expires_in_seconds\<close> that is already an integer.\<close>

definition OAuth2Credential_init ::
  "world \<Rightarrow> string \<Rightarrow> pyval \<Rightarrow> int \<Rightarrow> pyval \<Rightarrow> string \<Rightarrow> string option \<Rightarrow> pyval
     \<Rightarrow> OAuth2Credential" where
  "OAuth2Credential_init w cid tok expires scs gt secret rtok =
     \<lparr> client_id = cid,
       access_token = tok,
       expires_in_seconds = now w + expires,
       scopes = scs,
       grant_type = gt,
       client_secret = secret,
       refresh_token = rtok \<rparr>"

definition is_stale :: "world \<Rightarrow> OAuth2Credential \<Rightarrow> bool" where
  "is_stale w c = (expires_in_seconds c - now w \<le> 0)"

section \<open>What lies outside the repository\<close>

text \<open>
  The library calls Python built-ins and third-party code whose results the model takes
  as given: \<open>requests.post\<close> (the response may depend on the requests sent before),
  \<open>urlparse(url).query\<close> and \<open>parse_qs\<close> of \<open>urllib\<close> (a dictionary from each field
  name to its list of values, which \<open>parse_qs\<close> never leaves empty: the first value and
  the rest), the iteration order of a set of strings, and \<open>int(s)\<close> on a string
  (\<open>None\<close> when it raises \<open>ValueError\<close>).
\<close>

record env =
  post :: "http_request list \<Rightarrow> http_request \<Rightarrow> response"
  urlparse_query :: "string \<Rightarrow> string"
  parse_qs :: "string \<Rightarrow> string \<Rightarrow> (string \<times> string list) option"
  set_iter :: "string set \<Rightarrow> string list"
  int_of_str :: "string \<Rightarrow> int option"

text \<open>
  \<open>int(x)\<close>. A float is truncated towards zero; an infinity raises \<open>OverflowError\<close>
  and not-a-number raises \<open>ValueError\<close>.
\<close>

fun py_int :: "env \<Rightarrow> pyval \<Rightarrow> exn + int" where
  "py_int E (PInt n) = Inr n"
| "py_int E (PBool b) = Inr (if b then 1 else 0)"
| "py_int E (PFloat (FloatVal q)) = Inr (if 0 \<le> q then \<lfloor>q\<rfloor> else \<lceil>q\<rceil>)"
| "py_int E (PFloat FloatInf) = Inl OverflowError"
| "py_int E (PFloat FloatNegInf) = Inl OverflowError"
| "py_int E (PFloat FloatNaN) = Inl ValueError"
| "py_int E (PStr s) = (case int_of_str E s of None \<Rightarrow> Inl ValueError | Some n \<Rightarrow> Inr n)"
| "py_int E PNone = Inl TypeError"
| "py_int E (PList xs) = Inl TypeError"
| "py_int E (PDict kvs) = Inl TypeError"
| "py_int E (PSet S) = Inl TypeError"

text \<open>
  \<open>s.split()\<close>: the maximal runs of characters that are not whitespace. The whitespace
  among the code points below 256 is the tab, the line feed, the vertical tab, the form
  feed, the carriage return, the four separators \<open>0x1c\<close> to \<open>0x1f\<close>, the space, the
  next-line character \<open>0x85\<close> and the no-break space \<open>0xa0\<close>.
\<close>

definition is_space :: "char \<Rightarrow> bool" where
  "is_space c = (of_char c \<in> {9, 10, 11, 12, 13, 28, 29, 30, 31, 32, 133, 160 :: nat})"

fun split_from :: "string \<Rightarrow> string \<Rightarrow> string list" where
  "split_from cur [] = (if cur = [] then [] else [cur])"
| "split_from cur (c # cs) =
     (if is_space c then (if cur = [] then split_from [] cs else cur # split_from [] cs)
      else split_from (cur @ [c]) cs)"

definition py_split :: "string \<Rightarrow> string list" where
  "py_split s = split_from [] s"

text \<open>\<open>sub in s\<close> on strings: \<open>sub\<close> occurs in \<open>s\<close> as a contiguous piece.\<close>

fun starts_with :: "string \<Rightarrow> string \<Rightarrow> bool" where
  "starts_with s [] = True"
| "starts_with [] (p # ps) = False"
| "starts_with (c # cs) (p # ps) = (c = p \<and> starts_with cs ps)"

fun str_contains :: "string \<Rightarrow> string \<Rightarrow> bool" where
  "str_contains [] sub = (sub = [])"
| "str_contains (c # cs) sub = (starts_with (c # cs) sub \<or> str_contains cs sub)"

text \<open>\<open>sep.join(xs)\<close>.\<close>

fun py_join :: "string \<Rightarrow> string list \<Rightarrow> string" where
  "py_join sep [] = []"
| "py_join sep [x] = x"
| "py_join sep (x # y # ys) = x @ sep @ py_join sep (y # ys)"

section \<open>errors.py: the error adapter\<close>

text \<open>
  The entries that one element of \<open>error_detail\<close> contributes: for a dictionary, one
  \<open>ErrorDetails(parameter, title)\<close> per item; for anything else, nothing.
\<close>

fun details_of_entry :: "pyval \<Rightarrow> detail list" where
  "details_of_entry (PDict items) = map (\<lambda>(parameter, title). ErrorDetails parameter title) items"
| "details_of_entry v = []"

text \<open>
  \<open>for error in errors\<close>: the elements a Python object yields when iterated, a
  \<open>TypeError\<close> for \<open>None\<close>, a boolean, an integer and a float.
\<close>

fun py_iter :: "env \<Rightarrow> pyval \<Rightarrow> exn + pyval list" where
  "py_iter E (PList xs) = Inr xs"
| "py_iter E (PStr s) = Inr (map (\<lambda>c. PStr [c]) s)"
| "py_iter E (PDict kvs) = Inr (map (\<lambda>(k, v). PStr k) kvs)"
| "py_iter E (PSet S) = Inr (map PStr (set_iter E S))"
| "py_iter E PNone = Inl TypeError"
| "py_iter E (PBool b) = Inl TypeError"
| "py_iter E (PInt n) = Inl TypeError"
| "py_iter E (PFloat f) = Inl TypeError"

definition simple_response_to_error_adapter ::
  "env \<Rightarrow> int \<Rightarrow> (string \<times> pyval) list \<Rightarrow> exn + detail list \<times> pyval" where
  "simple_response_to_error_adapter E status original_body =
     (let meta = dict_get original_body ''error'' in
      if dict_has original_body ''error_detail'' then
        (case py_iter E (dict_get original_body ''error_detail'') of
           Inl x \<Rightarrow> Inl x
         | Inr errors \<Rightarrow> Inr (concat (map details_of_entry errors), meta))
      else if dict_has original_body ''error_description'' then
        Inr ([Bare (dict_get original_body ''error_description'')], meta)
      else Inr ([], meta))"

text \<open>
  \<open>HTTPError._adapt_response\<close>. \<open>response.headers['content-type']\<close> raises \<open>KeyError\<close>
  without the header, \<open>response.json()\<close> raises \<open>ValueError\<close> on a body that does not
  decode, and \<open>body.get\<close> raises \<open>AttributeError\<close> on a body that is not a dictionary.
\<close>

definition adapt_response :: "env \<Rightarrow> response \<Rightarrow> exn + detail list \<times> pyval" where
  "adapt_response E r =
     (case map_of (headers r) ''content-type'' of
        None \<Rightarrow> Inl (KeyError ''content-type'')
      | Some ct \<Rightarrow>
          if str_contains ct ''application/json'' then
            (case json_body r of
               None \<Rightarrow> Inl ValueError
             | Some (PDict body) \<Rightarrow>
                 if py_truthy (dict_get body ''error'')
                 then simple_response_to_error_adapter E (status_code r) body
                 else Inl (UnknownHttpError r)
             | Some other \<Rightarrow> Inl AttributeError)
          else Inl (UnknownHttpError r))"

definition client_default_message :: string where
  "client_default_message =
     ''The request contains bad syntax or cannot be filled '' @
     ''due to a fault from the client sending the request.''"

definition server_default_message :: string where
  "server_default_message =
     ''The server encounter an error or is unable to process the request.''"

text \<open>
  \<open>raise ClientError(response, message)\<close>: the constructor runs the adapter, so what is
  raised is the \<open>ClientError\<close>, or whatever the adapter raised while it was built.
\<close>

definition raise_ClientError :: "env \<Rightarrow> response \<Rightarrow> pyval \<Rightarrow> exn" where
  "raise_ClientError E r message =
     (let message = (if \<not> py_truthy message then PStr client_default_message else message) in
      case adapt_response E r of
        Inl x \<Rightarrow> x
      | Inr (errors, meta) \<Rightarrow> ClientError message errors meta r)"

text \<open>\<open>ServerError._adapt_response\<close>: \<open>errors[0] if errors else None\<close>.\<close>

definition ServerError_adapt_response :: "env \<Rightarrow> response \<Rightarrow> exn + detail option \<times> pyval" where
  "ServerError_adapt_response E r =
     (case adapt_response E r of
        Inl x \<Rightarrow> Inl x
      | Inr (errors, meta) \<Rightarrow> Inr (case errors of [] \<Rightarrow> None | e # es \<Rightarrow> Some e, meta))"

definition raise_ServerError :: "env \<Rightarrow> response \<Rightarrow> pyval \<Rightarrow> exn" where
  "raise_ServerError E r message =
     (let message = (if \<not> py_truthy message then PStr server_default_message else message) in
      case ServerError_adapt_response E r of
        Inl x \<Rightarrow> x
      | Inr (error, meta) \<Rightarrow> ServerError message error meta r)"

section \<open>utils/handlers.py: the pre-check callback\<close>

text \<open>
  \<open>error_handler\<close>. On a 4xx response the message is read first:
  \<open>response.json()\<close> raises \<open>ValueError\<close> on a body that does not decode; on a decoded
  body that is not a dictionary either the \<open>in\<close> test or the subscript with a string
  raises \<open>TypeError\<close>; on a dictionary with neither key the subscript raises \<open>KeyError\<close>.
\<close>

definition error_handler :: "env \<Rightarrow> response \<Rightarrow> exn + response" where
  "error_handler E r =
     (if 400 \<le> status_code r \<and> status_code r \<le> 499 then
        (case json_body r of
           None \<Rightarrow> Inl ValueError
         | Some (PDict body) \<Rightarrow>
             if dict_has body ''error_description''
             then Inl (raise_ClientError E r (dict_get body ''error_description''))
             else if dict_has body ''error_detail''
             then Inl (raise_ClientError E r (dict_get body ''error_detail''))
             else Inl (KeyError ''error_detail'')
         | Some other \<Rightarrow> Inl TypeError)
      else if 500 \<le> status_code r \<and> status_code r \<le> 599 then
        Inl (raise_ServerError E r PNone)
      else Inr r)"

section \<open>utils/auth.py: constants\<close>

text \<open>
  Modelled from the spec: \<open>lyft_rides/utils/auth.py\<close>, the module of constants, is not
  among the sources. The spec gives the grant types of the token endpoint
  (\<open>authorization_code\<close>, \<open>client_credentials\<close>, \<open>refresh_token\<close>), the response type
  \<open>code\<close> and the Bearer token type.
\<close>

definition AUTHORIZATION_CODE_GRANT :: string where
  "AUTHORIZATION_CODE_GRANT = ''authorization_code''"

definition CLIENT_CREDENTIAL_GRANT :: string where
  "CLIENT_CREDENTIAL_GRANT = ''client_credentials''"

definition REFRESH_TOKEN :: string where
  "REFRESH_TOKEN = ''refresh_token''"

definition CODE_RESPONSE_TYPE :: string where
  "CODE_RESPONSE_TYPE = ''code''"

definition OAUTH_TOKEN_TYPE :: string where
  "OAUTH_TOKEN_TYPE = ''Bearer''"

section \<open>session.py: sessions and credentials from token responses\<close>

record Session =
  oauth2credential :: OAuth2Credential
  token_type :: string

definition Session_init :: "OAuth2Credential option \<Rightarrow> exn + Session" where
  "Session_init cred =
     (case cred of
        None \<Rightarrow> Inl (LyftIllegalState SessionWithoutCredential)
      | Some c \<Rightarrow> Inr \<lparr> oauth2credential = c, token_type = OAUTH_TOKEN_TYPE \<rparr>)"

text \<open>
  \<open>OAuth2Credential.make_from_response\<close>. \<open>scopes.split()\<close> raises \<open>AttributeError\<close> on
  anything but a string (\<open>None\<close> when the body has no \<open>scope\<close>), and the constructor's
  \<open>int(expires_in_seconds)\<close> raises on what \<open>int\<close> does not convert.
\<close>

definition make_from_response ::
  "env \<Rightarrow> world \<Rightarrow> response \<Rightarrow> string \<Rightarrow> string \<Rightarrow> string option \<Rightarrow> exn + OAuth2Credential" where
  "make_from_response E w r gt cid secret =
     (if status_code r \<noteq> 200 then
        Inl (raise_ClientError E r (PStr (''Error with Access Token Request: '' @ reason r)))
      else
        (case json_body r of
           None \<Rightarrow> Inl ValueError
         | Some (PDict body) \<Rightarrow>
             (case dict_get body ''scope'' of
                PStr scopes_str \<Rightarrow>
                  (let scopes_set = PSet (set (py_split scopes_str)) in
                   case py_int E (dict_get body ''expires_in'') of
                     Inl x \<Rightarrow> Inl x
                   | Inr expires \<Rightarrow>
                       Inr (OAuth2Credential_init w cid (dict_get body ''access_token'') expires
                              scopes_set gt secret (dict_get body ''refresh_token'')))
              | other \<Rightarrow> Inl AttributeError)
         | Some other \<Rightarrow> Inl AttributeError))"

section \<open>auth.py: grants and token operations\<close>

text \<open>
  \<open>OAuth2._extract_query\<close>: the query string of the URL, parsed, with the first value of
  each field.
\<close>

definition extract_query :: "env \<Rightarrow> string \<Rightarrow> string \<Rightarrow> string option" where
  "extract_query E redirect_url =
     (let qs = urlparse_query E redirect_url;
          query_params = parse_qs E qs
      in (\<lambda>qp. map_option fst (query_params qp)))"

text \<open>
  \<open>AuthorizationCodeGrant\<close>. The constructor takes the sandbox prefix (a constant of the
  missing module) and the token that \<open>_generate_state_token\<close> would draw.
\<close>

record AuthorizationCodeGrant =
  g_client_id :: string
  g_scopes :: pyval
  g_client_secret :: string
  state_token :: "string option"

definition AuthorizationCodeGrant_init ::
  "string \<Rightarrow> string \<Rightarrow> string \<Rightarrow> string \<Rightarrow> pyval \<Rightarrow> bool \<Rightarrow> string option
     \<Rightarrow> AuthorizationCodeGrant" where
  "AuthorizationCodeGrant_init sandbox_prefix generated cid secret scs is_sandbox_mode tok =
     \<lparr> g_client_id = cid,
       g_scopes = scs,
       g_client_secret = (if is_sandbox_mode then py_join ''-'' [sandbox_prefix, secret] else secret),
       state_token = (case tok of Some t \<Rightarrow> Some t | None \<Rightarrow> Some generated) \<rparr>"

text \<open>Python's truth value of a string that may be \<open>None\<close>.\<close>

fun truthy_str :: "string option \<Rightarrow> bool" where
  "truthy_str None = False"
| "truthy_str (Some s) = (s \<noteq> [])"

text \<open>
  \<open>AuthorizationCodeGrant._verify_query\<close>. It returns the value of \<open>code\<close>, which is
  \<open>None\<close> when the field is missing.
\<close>

definition verify_query ::
  "AuthorizationCodeGrant \<Rightarrow> (string \<Rightarrow> string option) \<Rightarrow> exn + string option" where
  "verify_query g query_params =
     (case query_params ''state'' of
        None \<Rightarrow> Inl (LyftIllegalState MissingStateParameter)
      | Some received_state_token \<Rightarrow>
          (case state_token g of
             None \<Rightarrow> Inl (LyftIllegalState MissingStateToken)
           | Some tok \<Rightarrow>
               if tok \<noteq> received_state_token
               then Inl (LyftIllegalState (CSRFError tok received_state_token))
               else
                 (let error = query_params ''error'';
                      authorization_code = query_params CODE_RESPONSE_TYPE
                  in if truthy_str error \<and> truthy_str authorization_code
                     then Inl (LyftIllegalState CodeAndErrorBothSet)
                     else if error = None \<and> authorization_code = None
                     then Inl (LyftIllegalState NeitherCodeNorError)
                     else
                       (case error of
                          None \<Rightarrow> Inr authorization_code
                        | Some e \<Rightarrow>
                            if e \<noteq> [] then Inl (LyftIllegalState (AuthorizationError e))
                            else Inr authorization_code))))"

text \<open>
  \<open>request_access_token\<close>. The request it builds: a set of scopes is joined with spaces,
  \<open>args\<close> holds the six fields (\<open>None\<close> for those not given) and the Basic-auth pair is
  the client's identifier and secret.
\<close>

definition token_request ::
  "env \<Rightarrow> string \<Rightarrow> string option \<Rightarrow> string option \<Rightarrow> pyval \<Rightarrow> string option \<Rightarrow> pyval
     \<Rightarrow> http_request" where
  "token_request E gt cid secret scs code rtok =
     (let scs = (case scs of PSet S \<Rightarrow> PStr (py_join '' '' (set_iter E S)) | other \<Rightarrow> scs);
          args = \<lparr> arg_grant_type = gt,
                   arg_client_id = cid,
                   arg_client_secret = secret,
                   arg_scope = scs,
                   arg_code = code,
                   arg_refresh_token = rtok \<rparr>
      in TokenPost (cid, secret) args)"

text \<open>The request goes on the wire, and only a response with status 200 is returned.\<close>

definition request_access_token ::
  "env \<Rightarrow> string \<Rightarrow> string option \<Rightarrow> string option \<Rightarrow> pyval \<Rightarrow> string option \<Rightarrow> pyval
     \<Rightarrow> world \<Rightarrow> (exn + response) \<times> world" where
  "request_access_token E gt cid secret scs code rtok w =
     (let rq = token_request E gt cid secret scs code rtok;
          r = post E (wire w) rq;
          w' = w\<lparr>wire := wire w @ [rq]\<rparr>
      in if status_code r = 200 then (Inr r, w')
         else (Inl (raise_ClientError E r
                      (PStr (''Failed to request access token: '' @ reason r @ ''.''))), w'))"

definition get_session ::
  "env \<Rightarrow> AuthorizationCodeGrant \<Rightarrow> string \<Rightarrow> world \<Rightarrow> (exn + Session) \<times> world" where
  "get_session E g redirect_url w =
     (let query_params = extract_query E redirect_url in
      case verify_query g query_params of
        Inl x \<Rightarrow> (Inl x, w)
      | Inr authorization_code \<Rightarrow>
          (case request_access_token E AUTHORIZATION_CODE_GRANT (Some (g_client_id g))
                  (Some (g_client_secret g)) PNone authorization_code PNone w of
             (Inl x, w') \<Rightarrow> (Inl x, w')
           | (Inr r, w') \<Rightarrow>
               (case make_from_response E w' r AUTHORIZATION_CODE_GRANT (g_client_id g)
                       (Some (g_client_secret g)) of
                  Inl x \<Rightarrow> (Inl x, w')
                | Inr c \<Rightarrow> (Session_init (Some c), w'))))"

definition refresh_access_token ::
  "env \<Rightarrow> OAuth2Credential \<Rightarrow> world \<Rightarrow> (exn + Session) \<times> world" where
  "refresh_access_token E credential w =
     (if grant_type credential = AUTHORIZATION_CODE_GRANT then
        (case request_access_token E REFRESH_TOKEN (Some (client_id credential))
                (client_secret credential) PNone None (refresh_token credential) w of
           (Inl x, w') \<Rightarrow> (Inl x, w')
         | (Inr r, w') \<Rightarrow>
             (case make_from_response E w' r (grant_type credential) (client_id credential)
                     (client_secret credential) of
                Inl x \<Rightarrow> (Inl x, w')
              | Inr c \<Rightarrow> (Session_init (Some c), w')))
      else if grant_type credential = CLIENT_CREDENTIAL_GRANT then
        (case request_access_token E CLIENT_CREDENTIAL_GRANT (Some (client_id credential))
                (client_secret credential) (scopes credential) None PNone w of
           (Inl x, w') \<Rightarrow> (Inl x, w')
         | (Inr r, w') \<Rightarrow>
             (case make_from_response E w' r (grant_type credential) (client_id credential)
                     (client_secret credential) of
                Inl x \<Rightarrow> (Inl x, w')
              | Inr c \<Rightarrow> (Session_init (Some c), w')))
      else (Inl (LyftIllegalState (NoRefreshTokens (grant_type credential))), w))"

definition revoke_access_token :: "env \<Rightarrow> OAuth2Credential \<Rightarrow> world \<Rightarrow> (exn + unit) \<times> world" where
  "revoke_access_token E credential w =
     (let rq = RevokePost (access_token credential);
          r = post E (wire w) rq;
          w' = w\<lparr>wire := wire w @ [rq]\<rparr>
      in if status_code r = 200 then (Inr (), w')
         else (Inl (raise_ClientError E r
                      (PStr (''Failed to revoke access token: '' @ reason r @ ''.''))), w'))"

section \<open>client.py: the API client\<close>

text \<open>
  \<open>LyftRidesClient\<close> holds the session. \<open>Request\<close> (\<open>lyft_rides/request.py\<close>) is not
  among the sources: what \<open>Request(auth_session, api_host, method, path, args).execute()\<close>
  does with the session, the method, the path and the arguments is a parameter, a step
  of the world that returns a response or raises.
\<close>

record LyftRidesClient =
  session :: Session
  api_host :: string

type_synonym executor =
  "Session \<Rightarrow> string \<Rightarrow> string \<Rightarrow> string \<Rightarrow> pyval \<Rightarrow> world \<Rightarrow> (exn + response) \<times> world"

text \<open>
  \<open>refresh_oauth_credential\<close>: the client after the call, unchanged when the refresh
  raises.
\<close>

definition refresh_oauth_credential ::
  "env \<Rightarrow> LyftRidesClient \<Rightarrow> world \<Rightarrow> (exn + LyftRidesClient) \<times> world" where
  "refresh_oauth_credential E self w =
     (let credential = oauth2credential (session self) in
      if is_stale w credential then
        (case refresh_access_token E credential w of
           (Inl x, w') \<Rightarrow> (Inl x, w')
         | (Inr refresh_session, w') \<Rightarrow> (Inr (self\<lparr>session := refresh_session\<rparr>), w'))
      else (Inr self, w))"

text \<open>
  \<open>_api_call\<close>, which every method of the client ends with: the response or the error,
  the client after the call and the world after the call.
\<close>

definition api_call ::
  "env \<Rightarrow> executor \<Rightarrow> LyftRidesClient \<Rightarrow> string \<Rightarrow> string \<Rightarrow> pyval \<Rightarrow> world
     \<Rightarrow> (exn + response) \<times> LyftRidesClient \<times> world" where
  "api_call E execute self method target args w =
     (case refresh_oauth_credential E self w of
        (Inl x, w') \<Rightarrow> (Inl x, self, w')
      | (Inr self', w') \<Rightarrow>
          (case execute (session self') (api_host self') method target args w' of
             (result, w'') \<Rightarrow> (result, self', w'')))"

definition revoke_oauth_credential ::
  "env \<Rightarrow> LyftRidesClient \<Rightarrow> world \<Rightarrow> (exn + unit) \<times> world" where
  "revoke_oauth_credential E self w = revoke_access_token E (oauth2credential (session self)) w"

section \<open>examples: the persisted credential record\<close>

text \<open>
  \<open>list(x)\<close>, which the example applies to the scopes before it writes them.
\<close>

definition py_list :: "env \<Rightarrow> pyval \<Rightarrow> exn + pyval" where
  "py_list E v = (case py_iter E v of Inl x \<Rightarrow> Inl x | Inr xs \<Rightarrow> Inr (PList xs))"

text \<open>
  The record that \<open>authorization_code_grant_flow\<close> writes (\<open>credential_data\<close>) and that
  \<open>import_oauth2_credentials\<close> reads back. The YAML file in between is taken to return
  what was written.
\<close>

record credential_data =
  d_client_id :: string
  d_access_token :: pyval
  d_expires_in_seconds :: int
  d_scopes :: pyval
  d_grant_type :: string
  d_client_secret :: "string option"
  d_refresh_token :: pyval

definition save_credential :: "env \<Rightarrow> OAuth2Credential \<Rightarrow> exn + credential_data" where
  "save_credential E credential =
     (case py_list E (scopes credential) of
        Inl x \<Rightarrow> Inl x
      | Inr scope_list \<Rightarrow>
          Inr \<lparr> d_client_id = client_id credential,
                d_access_token = access_token credential,
                d_expires_in_seconds = expires_in_seconds credential,
                d_scopes = scope_list,
                d_grant_type = grant_type credential,
                d_client_secret = client_secret credential,
                d_refresh_token = refresh_token credential \<rparr>)"

text \<open>\<open>create_lyft_client\<close>, as far as the credential: the constructor on the stored fields.\<close>

definition load_credential :: "world \<Rightarrow> credential_data \<Rightarrow> OAuth2Credential" where
  "load_credential w d =
     OAuth2Credential_init w (d_client_id d) (d_access_token d) (d_expires_in_seconds d)
       (d_scopes d) (d_grant_type d) (d_client_secret d) (d_refresh_token d)"

text \<open>The strings in a collection of scopes, whether it is a set or a list.\<close>

fun strings_of :: "pyval list \<Rightarrow> string list" where
  "strings_of [] = []"
| "strings_of (PStr s # vs) = s # strings_of vs"
| "strings_of (v # vs) = strings_of vs"

fun scope_elems :: "pyval \<Rightarrow> string set" where
  "scope_elems (PSet S) = S"
| "scope_elems (PList xs) = set (strings_of xs)"
| "scope_elems v = {}"

section \<open>request.py: executing a request\<close>

text \<open>
  Modelled from the spec: \<open>Request.execute\<close> (\<open>lyft_rides/request.py\<close>) is not among the
  sources. By the spec the dispatch builds and executes the HTTP request with the
  session's access token as a Bearer credential and returns the raw response, and the
  pre-check callback inspects the response inside the request-execution path.
\<close>

definition Request_execute :: "env \<Rightarrow> executor" where
  "Request_execute E auth_session host method path args w =
     (let rq = ApiRequest method host path args (access_token (oauth2credential auth_session));
          r = post E (wire w) rq;
          w' = w\<lparr>wire := wire w @ [rq]\<rparr>
      in (error_handler E r, w'))"


section \<open>Vocabulary of the statements\<close>

text \<open>The outcomes that are one of the three raises of the state check of \<open>_verify_query\<close>.\<close>

fun state_check_failed :: "exn + 'a \<Rightarrow> bool" where
  "state_check_failed (Inl (LyftIllegalState MissingStateParameter)) = True"
| "state_check_failed (Inl (LyftIllegalState MissingStateToken)) = True"
| "state_check_failed (Inl (LyftIllegalState (CSRFError expected got))) = True"
| "state_check_failed other = False"

text \<open>
  Responses and an environment to run the library on: a response with a JSON body, a
  response with an HTML body, and a server that answers every token and revoke request
  with one response and every resource request with another, and whose \<open>parse_qs\<close>
  returns the same given fields for every query string.
\<close>

definition json_response :: "int \<Rightarrow> string \<Rightarrow> pyval \<Rightarrow> response" where
  "json_response code phrase body =
     \<lparr> status_code = code, reason = phrase,
       headers = [(''content-type'', ''application/json'')],
       json_body = Some body \<rparr>"

definition html_response :: "int \<Rightarrow> string \<Rightarrow> response" where
  "html_response code phrase =
     \<lparr> status_code = code, reason = phrase,
       headers = [(''content-type'', ''text/html'')],
       json_body = None \<rparr>"

definition token_response :: response where
  "token_response =
     json_response 200 ''OK''
       (PDict [(''access_token'', PStr ''fresh-token''), (''expires_in'', PInt 3600),
               (''scope'', PStr ''public profile''), (''refresh_token'', PStr ''refresh-2'')])"

definition demo_env :: "response \<Rightarrow> response \<Rightarrow> (string \<times> string) list \<Rightarrow> env" where
  "demo_env token_reply api_reply params =
     \<lparr> post = (\<lambda>sent rq. case rq of ApiRequest m h p a t \<Rightarrow> api_reply | other \<Rightarrow> token_reply),
       urlparse_query = (\<lambda>url. url),
       parse_qs = (\<lambda>qs. map_of (map (\<lambda>(k, v). (k, (v, []))) params)),
       set_iter = (\<lambda>S. if S = {''public''} then [''public''] else []),
       int_of_str = (\<lambda>s. None) \<rparr>"

section \<open>Staleness\<close>

text \<open>
  C1, as stated: a credential constructed at time \<open>t\<close> with \<open>expires_in_seconds \<ge> 0\<close> is
  not stale at time \<open>t\<close>. It fails for a lifetime of zero seconds: the credential is
  stale at once, since the test is \<open>expires_in_seconds - now \<le> 0\<close>.
\<close>

theorem C1_fresh_zero_lifetime_is_stale:
  "(0::int) \<le> 0 \<and>
   is_stale \<lparr>clock = 100, wire = []\<rparr>
     (OAuth2Credential_init \<lparr>clock = 100, wire = []\<rparr> ''id'' (PStr ''tok'') 0
        (PSet {''public''}) ''client_credentials'' None PNone)"
  by (simp add: is_stale_def OAuth2Credential_init_def now_def)

text \<open>
  C1, amended: a credential constructed at time \<open>t\<close> with a lifetime of \<open>e\<close> seconds is
  stale at a time \<open>t'\<close> exactly when \<open>t + e \<le> t'\<close>. So with \<open>e > 0\<close> it is not stale at
  the time of construction, and with any \<open>e\<close> it is stale at every time at or after its
  expiry \<open>t + e\<close>.
\<close>

theorem C1_is_stale_iff:
  "clock w = t \<Longrightarrow> clock w' = t' \<Longrightarrow>
   c = OAuth2Credential_init w cid tok e scs gt secret rtok \<Longrightarrow>
   expires_in_seconds c = t + e \<and>
   (is_stale w' c \<longleftrightarrow> t + e \<le> t') \<and>
   (0 < e \<longrightarrow> \<not> is_stale w c) \<and>
   (t + e \<le> t' \<longrightarrow> is_stale w' c)"
  by (simp add: is_stale_def OAuth2Credential_init_def now_def)

theorem C1_is_stale_iff_witness:
  "\<not> is_stale \<lparr>clock = 100, wire = []\<rparr>
      (OAuth2Credential_init \<lparr>clock = 100, wire = []\<rparr> ''id'' (PStr ''tok'') 60
         (PSet {''public''}) ''client_credentials'' None PNone)
   \<and> is_stale \<lparr>clock = 160, wire = []\<rparr>
      (OAuth2Credential_init \<lparr>clock = 100, wire = []\<rparr> ''id'' (PStr ''tok'') 60
         (PSet {''public''}) ''client_credentials'' None PNone)"
proof -
  let ?w = "\<lparr>clock = 100, wire = []\<rparr>"
  let ?c = "OAuth2Credential_init ?w ''id'' (PStr ''tok'') 60
         (PSet {''public''}) ''client_credentials'' None PNone"
  have a: "\<not> is_stale ?w ?c"
    using C1_is_stale_iff [where w = ?w and t = 100 and w' = ?w and t' = 100 and c = ?c
        and cid = "''id''" and tok = "PStr ''tok''" and e = 60 and scs = "PSet {''public''}"
        and gt = "''client_credentials''" and secret = None and rtok = PNone]
    by simp
  have b: "is_stale \<lparr>clock = 160, wire = []\<rparr> ?c"
    using C1_is_stale_iff [where w = ?w and t = 100 and w' = "\<lparr>clock = 160, wire = []\<rparr>"
        and t' = 160 and c = ?c
        and cid = "''id''" and tok = "PStr ''tok''" and e = 60 and scs = "PSet {''public''}"
        and gt = "''client_credentials''" and secret = None and rtok = PNone]
    by simp
  show ?thesis using a b by simp
qed

section \<open>The error adapter\<close>

lemma dict_has_get: "\<not> dict_has body k \<Longrightarrow> dict_get body k = PNone"
  by (simp add: dict_has_def dict_get_def)

lemma adapt_response_not_json:
  "map_of (headers r) ''content-type'' = Some ct \<Longrightarrow> \<not> str_contains ct ''application/json'' \<Longrightarrow>
   adapt_response E r = Inl (UnknownHttpError r)"
  by (simp add: adapt_response_def)

lemma adapt_response_no_error:
  "map_of (headers r) ''content-type'' = Some ct \<Longrightarrow> str_contains ct ''application/json'' \<Longrightarrow>
   json_body r = Some (PDict body) \<Longrightarrow> \<not> py_truthy (dict_get body ''error'') \<Longrightarrow>
   adapt_response E r = Inl (UnknownHttpError r)"
  by (simp add: adapt_response_def)

lemma adapt_response_error:
  "map_of (headers r) ''content-type'' = Some ct \<Longrightarrow> str_contains ct ''application/json'' \<Longrightarrow>
   json_body r = Some (PDict body) \<Longrightarrow> py_truthy (dict_get body ''error'') \<Longrightarrow>
   adapt_response E r = simple_response_to_error_adapter E (status_code r) body"
  by (simp add: adapt_response_def)

lemma simple_adapter_detail_array:
  "dict_has body ''error_detail'' \<Longrightarrow> dict_get body ''error_detail'' = PList entries \<Longrightarrow>
   simple_response_to_error_adapter E status body =
     Inr (concat (map details_of_entry entries), dict_get body ''error'')"
  by (simp add: simple_response_to_error_adapter_def)

lemma simple_adapter_description:
  "\<not> dict_has body ''error_detail'' \<Longrightarrow> dict_has body ''error_description'' \<Longrightarrow>
   simple_response_to_error_adapter E status body =
     Inr ([Bare (dict_get body ''error_description'')], dict_get body ''error'')"
  by (simp add: simple_response_to_error_adapter_def)

lemma simple_adapter_plain:
  "\<not> dict_has body ''error_detail'' \<Longrightarrow> \<not> dict_has body ''error_description'' \<Longrightarrow>
   simple_response_to_error_adapter E status body = Inr ([], dict_get body ''error'')"
  by (simp add: simple_response_to_error_adapter_def)

text \<open>The adapter raises no \<open>LyftIllegalState\<close>, and neither do the two constructors.\<close>

lemma py_iter_error: "py_iter E v = Inl x \<Longrightarrow> x = TypeError"
  by (cases v) simp_all

lemma adapt_response_raises:
  "adapt_response E r = Inl x \<Longrightarrow>
   x = KeyError ''content-type'' \<or> x = ValueError \<or> x = AttributeError \<or> x = TypeError
   \<or> x = UnknownHttpError r"
  by (auto simp: adapt_response_def simple_response_to_error_adapter_def Let_def
      split: option.splits if_splits pyval.splits sum.splits dest: py_iter_error)

lemma raise_ClientError_cases:
  "raise_ClientError E r m = x \<Longrightarrow>
   (\<exists>m' errors meta. x = ClientError m' errors meta r)
   \<or> x = KeyError ''content-type'' \<or> x = ValueError \<or> x = AttributeError \<or> x = TypeError
   \<or> x = UnknownHttpError r"
proof (cases "adapt_response E r")
  case (Inl y)
  assume "raise_ClientError E r m = x"
  with Inl have "x = y" by (simp add: raise_ClientError_def)
  with adapt_response_raises [OF Inl] show ?thesis by blast
next
  case (Inr p)
  assume "raise_ClientError E r m = x"
  with Inr show ?thesis by (cases p) (auto simp: raise_ClientError_def)
qed

lemma raise_ClientError_not_illegal: "raise_ClientError E r m \<noteq> LyftIllegalState s"
  using raise_ClientError_cases [of E r m "LyftIllegalState s"] by auto

text \<open>
  Where the adapter itself fails: without a content-type header the subscript raises
  \<open>KeyError\<close>, and on a JSON body that is not an object \<open>body.get\<close> raises
  \<open>AttributeError\<close>.
\<close>

lemma adapt_response_no_header:
  "map_of (headers r) ''content-type'' = None \<Longrightarrow>
   adapt_response E r = Inl (KeyError ''content-type'')"
  by (simp add: adapt_response_def)

lemma adapt_response_json_array:
  "adapt_response E (json_response 500 ''Internal Server Error'' (PList [])) = Inl AttributeError"
  by (simp add: adapt_response_def json_response_def)

text \<open>
  C8, as stated: a body with a top-level \<open>error\<close> field has its details adapted. It
  fails for an \<open>error\<close> field that is present and empty: the adapter tests the truth
  value of \<open>body.get('error')\<close>, and the response is an unknown HTTP error although it
  has the field and an \<open>error_detail\<close> array.
\<close>

theorem C8_empty_error_field_is_unknown:
  "dict_has [(''error'', PStr ''''),
             (''error_detail'', PList [PDict [(''start_latitude'', PStr ''is required'')]])]
     ''error''
   \<and> adapt_response (demo_env token_response token_response [])
       (json_response 422 ''Unprocessable Entity''
          (PDict [(''error'', PStr ''''),
                  (''error_detail'', PList [PDict [(''start_latitude'', PStr ''is required'')]])]))
     = Inl (UnknownHttpError
         (json_response 422 ''Unprocessable Entity''
            (PDict [(''error'', PStr ''''),
                    (''error_detail'', PList [PDict [(''start_latitude'', PStr ''is required'')]])])))"
  by (simp add: adapt_response_def json_response_def dict_has_def dict_get_def)

text \<open>
  C8, amended: for a response with a content-type header, the adapter raises
  \<open>UnknownHttpError\<close> with the response when the content type does not contain
  \<open>application/json\<close>, and, for a body that is a JSON object, when the top-level \<open>error\<close>
  is missing or has a false truth value (empty, zero, null). Otherwise, when
  \<open>error_detail\<close> is present and is an array, every key and value of every entry that is
  a mapping becomes one \<open>ErrorDetails(parameter, title)\<close>, in order, and the other entries
  contribute nothing; when \<open>error_detail\<close> is absent and \<open>error_description\<close> is present,
  its value is the only detail; when both are absent there is no detail. A
  \<open>ClientError\<close> keeps the whole list and a \<open>ServerError\<close> keeps the first detail, or none.
\<close>

theorem C8_error_adapter:
  assumes ct: "map_of (headers r) ''content-type'' = Some ct"
  shows "(\<not> str_contains ct ''application/json'' \<longrightarrow>
            adapt_response E r = Inl (UnknownHttpError r))
       \<and> (str_contains ct ''application/json'' \<longrightarrow> json_body r = Some (PDict body) \<longrightarrow>
            (\<not> py_truthy (dict_get body ''error'') \<longrightarrow>
               adapt_response E r = Inl (UnknownHttpError r))
          \<and> (\<not> dict_has body ''error'' \<longrightarrow> \<not> py_truthy (dict_get body ''error''))
          \<and> (py_truthy (dict_get body ''error'') \<longrightarrow>
               (dict_has body ''error_detail'' \<longrightarrow> dict_get body ''error_detail'' = PList entries \<longrightarrow>
                  adapt_response E r =
                    Inr (concat (map details_of_entry entries), dict_get body ''error''))
             \<and> (\<not> dict_has body ''error_detail'' \<longrightarrow> dict_has body ''error_description'' \<longrightarrow>
                  adapt_response E r =
                    Inr ([Bare (dict_get body ''error_description'')], dict_get body ''error''))
             \<and> (\<not> dict_has body ''error_detail'' \<longrightarrow> \<not> dict_has body ''error_description'' \<longrightarrow>
                  adapt_response E r = Inr ([], dict_get body ''error''))))
       \<and> details_of_entry (PDict items) = map (\<lambda>(parameter, title). ErrorDetails parameter title) items
       \<and> (\<forall>v. (\<forall>items. v \<noteq> PDict items) \<longrightarrow> details_of_entry v = [])
       \<and> raise_ClientError E r m =
           (case adapt_response E r of
              Inl x \<Rightarrow> x
            | Inr (errors, meta) \<Rightarrow>
                ClientError (if py_truthy m then m else PStr client_default_message) errors meta r)
       \<and> raise_ServerError E r m =
           (case adapt_response E r of
              Inl x \<Rightarrow> x
            | Inr (errors, meta) \<Rightarrow>
                ServerError (if py_truthy m then m else PStr server_default_message)
                  (case errors of [] \<Rightarrow> None | e # es \<Rightarrow> Some e) meta r)"
proof -
  have a: "\<not> str_contains ct ''application/json'' \<longrightarrow>
            adapt_response E r = Inl (UnknownHttpError r)"
    using ct by (simp add: adapt_response_not_json)
  have b: "str_contains ct ''application/json'' \<longrightarrow> json_body r = Some (PDict body) \<longrightarrow>
            (\<not> py_truthy (dict_get body ''error'') \<longrightarrow>
               adapt_response E r = Inl (UnknownHttpError r))
          \<and> (\<not> dict_has body ''error'' \<longrightarrow> \<not> py_truthy (dict_get body ''error''))
          \<and> (py_truthy (dict_get body ''error'') \<longrightarrow>
               (dict_has body ''error_detail'' \<longrightarrow> dict_get body ''error_detail'' = PList entries \<longrightarrow>
                  adapt_response E r =
                    Inr (concat (map details_of_entry entries), dict_get body ''error''))
             \<and> (\<not> dict_has body ''error_detail'' \<longrightarrow> dict_has body ''error_description'' \<longrightarrow>
                  adapt_response E r =
                    Inr ([Bare (dict_get body ''error_description'')], dict_get body ''error''))
             \<and> (\<not> dict_has body ''error_detail'' \<longrightarrow> \<not> dict_has body ''error_description'' \<longrightarrow>
                  adapt_response E r = Inr ([], dict_get body ''error'')))"
    using ct
    by (simp add: adapt_response_no_error adapt_response_error simple_adapter_detail_array
        simple_adapter_description simple_adapter_plain dict_has_get)
  have c: "\<forall>v. (\<forall>items. v \<noteq> PDict items) \<longrightarrow> details_of_entry v = []"
  proof (intro allI impI)
    fix v assume "\<forall>items. v \<noteq> PDict items"
    then show "details_of_entry v = []" by (cases v) simp_all
  qed
  have d: "raise_ClientError E r m =
           (case adapt_response E r of
              Inl x \<Rightarrow> x
            | Inr (errors, meta) \<Rightarrow>
                ClientError (if py_truthy m then m else PStr client_default_message) errors meta r)"
    by (simp add: raise_ClientError_def split: sum.splits)
  have e: "raise_ServerError E r m =
           (case adapt_response E r of
              Inl x \<Rightarrow> x
            | Inr (errors, meta) \<Rightarrow>
                ServerError (if py_truthy m then m else PStr server_default_message)
                  (case errors of [] \<Rightarrow> None | e # es \<Rightarrow> Some e) meta r)"
    by (simp add: raise_ServerError_def ServerError_adapt_response_def split: sum.splits prod.splits)
  show ?thesis using a b c d e by simp
qed

text \<open>
  The two examples of the spec: a 422 whose \<open>error_detail\<close> holds one mapping gives a
  \<open>ClientError\<close> with one \<open>ErrorDetails\<close>, and a 503 with an \<open>error_description\<close> gives a
  \<open>ServerError\<close> whose single detail is that string.
\<close>

theorem C8_error_adapter_witness:
  "raise_ClientError (demo_env token_response token_response [])
     (json_response 422 ''Unprocessable Entity''
        (PDict [(''error'', PStr ''invalid_request''),
                (''error_detail'', PList [PDict [(''start_latitude'', PStr ''is required'')]])]))
     PNone
   = ClientError (PStr client_default_message)
       [ErrorDetails ''start_latitude'' (PStr ''is required'')] (PStr ''invalid_request'')
       (json_response 422 ''Unprocessable Entity''
          (PDict [(''error'', PStr ''invalid_request''),
                  (''error_detail'', PList [PDict [(''start_latitude'', PStr ''is required'')]])]))
   \<and> raise_ServerError (demo_env token_response token_response [])
       (json_response 503 ''Service Unavailable''
          (PDict [(''error'', PStr ''server_error''), (''error_description'', PStr ''overloaded'')]))
       PNone
     = ServerError (PStr server_default_message) (Some (Bare (PStr ''overloaded'')))
         (PStr ''server_error'')
         (json_response 503 ''Service Unavailable''
            (PDict [(''error'', PStr ''server_error''), (''error_description'', PStr ''overloaded'')]))"
proof -
  let ?E = "demo_env token_response token_response []"
  let ?entries = "[PDict [(''start_latitude'', PStr ''is required'')]]"
  let ?b1 = "[(''error'', PStr ''invalid_request''), (''error_detail'', PList ?entries)]"
  let ?r1 = "json_response 422 ''Unprocessable Entity'' (PDict ?b1)"
  let ?b2 = "[(''error'', PStr ''server_error''), (''error_description'', PStr ''overloaded'')]"
  let ?r2 = "json_response 503 ''Service Unavailable'' (PDict ?b2)"
  have h1: "map_of (headers ?r1) ''content-type'' = Some ''application/json''"
    by (simp add: json_response_def)
  have h2: "map_of (headers ?r2) ''content-type'' = Some ''application/json''"
    by (simp add: json_response_def)
  have a: "raise_ClientError ?E ?r1 PNone
      = ClientError (PStr client_default_message)
          [ErrorDetails ''start_latitude'' (PStr ''is required'')] (PStr ''invalid_request'') ?r1"
    using C8_error_adapter [OF h1, where E = ?E and body = ?b1 and entries = ?entries
        and m = PNone and items = "[]"]
    by (simp add: json_response_def dict_has_def dict_get_def)
  have b: "raise_ServerError ?E ?r2 PNone
      = ServerError (PStr server_default_message) (Some (Bare (PStr ''overloaded'')))
          (PStr ''server_error'') ?r2"
    using C8_error_adapter [OF h2, where E = ?E and body = ?b2 and entries = "[]"
        and m = PNone and items = "[]"]
    by (simp add: json_response_def dict_has_def dict_get_def)
  show ?thesis using a b by simp
qed

section \<open>The pre-check callback\<close>

text \<open>
  Where the callback itself fails: a 4xx response whose body does not decode raises
  \<open>ValueError\<close>, and one whose JSON object has neither \<open>error_description\<close> nor
  \<open>error_detail\<close> raises \<open>KeyError\<close>.
\<close>

lemma error_handler_html_404:
  "error_handler E (html_response 404 ''Not Found'') = Inl ValueError"
  by (simp add: error_handler_def html_response_def)

lemma error_handler_no_message:
  "error_handler E (json_response 400 ''Bad Request'' (PDict [(''error'', PStr ''bad_parameter'')]))
   = Inl (KeyError ''error_detail'')"
  by (simp add: error_handler_def json_response_def dict_has_def)

text \<open>
  C9, as stated: every 5xx response raises a \<open>ServerError\<close>. It fails for a 503 with an
  HTML body: the constructor of \<open>ServerError\<close> runs the adapter, which raises
  \<open>UnknownHttpError\<close> for a content type that is not JSON.
\<close>

theorem C9_html_503_is_unknown:
  "error_handler (demo_env token_response token_response [])
     (html_response 503 ''Service Unavailable'')
   = Inl (UnknownHttpError (html_response 503 ''Service Unavailable''))"
  by (simp add: error_handler_def raise_ServerError_def ServerError_adapt_response_def
      adapt_response_def html_response_def)

text \<open>
  C9, amended: a response with a status outside 400 to 599 is returned unchanged. A 5xx
  response raises what building \<open>ServerError(response)\<close> raises: the \<open>ServerError\<close>, with
  the default message, when the adapter accepts the response, and \<open>UnknownHttpError\<close>
  when the adapter rejects it. A 4xx response whose body is a JSON object with a
  top-level \<open>error_description\<close> or \<open>error_detail\<close> raises what building
  \<open>ClientError(response, message)\<close> raises, where the message is the value of
  \<open>error_description\<close> when present and of \<open>error_detail\<close> otherwise (the default message
  when that value is empty): the \<open>ClientError\<close> with that message when the adapter accepts
  the response, and \<open>UnknownHttpError\<close> when it rejects it.
\<close>

theorem C9_error_handler:
  "(\<not> (400 \<le> status_code r \<and> status_code r \<le> 599) \<longrightarrow> error_handler E r = Inr r)
   \<and> (500 \<le> status_code r \<and> status_code r \<le> 599 \<longrightarrow>
        error_handler E r = Inl (raise_ServerError E r PNone)
      \<and> (\<forall>errors meta. adapt_response E r = Inr (errors, meta) \<longrightarrow>
            error_handler E r =
              Inl (ServerError (PStr server_default_message)
                     (case errors of [] \<Rightarrow> None | e # es \<Rightarrow> Some e) meta r))
      \<and> (adapt_response E r = Inl (UnknownHttpError r) \<longrightarrow>
            error_handler E r = Inl (UnknownHttpError r)))
   \<and> (400 \<le> status_code r \<and> status_code r \<le> 499 \<longrightarrow> json_body r = Some (PDict body) \<longrightarrow>
        dict_has body ''error_description'' \<or> dict_has body ''error_detail'' \<longrightarrow>
        message = (if dict_has body ''error_description''
                   then dict_get body ''error_description'' else dict_get body ''error_detail'') \<longrightarrow>
        error_handler E r = Inl (raise_ClientError E r message)
      \<and> (\<forall>errors meta. adapt_response E r = Inr (errors, meta) \<longrightarrow>
            error_handler E r =
              Inl (ClientError (if py_truthy message then message
                                else PStr client_default_message) errors meta r))
      \<and> (adapt_response E r = Inl (UnknownHttpError r) \<longrightarrow>
            error_handler E r = Inl (UnknownHttpError r)))"
proof -
  have a: "\<not> (400 \<le> status_code r \<and> status_code r \<le> 599) \<longrightarrow> error_handler E r = Inr r"
    by (auto simp: error_handler_def)
  have b: "500 \<le> status_code r \<and> status_code r \<le> 599 \<longrightarrow>
        error_handler E r = Inl (raise_ServerError E r PNone)
      \<and> (\<forall>errors meta. adapt_response E r = Inr (errors, meta) \<longrightarrow>
            error_handler E r =
              Inl (ServerError (PStr server_default_message)
                     (case errors of [] \<Rightarrow> None | e # es \<Rightarrow> Some e) meta r))
      \<and> (adapt_response E r = Inl (UnknownHttpError r) \<longrightarrow>
            error_handler E r = Inl (UnknownHttpError r))"
    by (simp add: error_handler_def raise_ServerError_def ServerError_adapt_response_def)
  have c: "400 \<le> status_code r \<and> status_code r \<le> 499 \<longrightarrow> json_body r = Some (PDict body) \<longrightarrow>
        dict_has body ''error_description'' \<or> dict_has body ''error_detail'' \<longrightarrow>
        message = (if dict_has body ''error_description''
                   then dict_get body ''error_description'' else dict_get body ''error_detail'') \<longrightarrow>
        error_handler E r = Inl (raise_ClientError E r message)
      \<and> (\<forall>errors meta. adapt_response E r = Inr (errors, meta) \<longrightarrow>
            error_handler E r =
              Inl (ClientError (if py_truthy message then message
                                else PStr client_default_message) errors meta r))
      \<and> (adapt_response E r = Inl (UnknownHttpError r) \<longrightarrow>
            error_handler E r = Inl (UnknownHttpError r))"
    by (simp add: error_handler_def raise_ClientError_def)
  show ?thesis by (rule conjI [OF a conjI [OF b c]])
qed

text \<open>
  A 404 whose body carries an \<open>error\<close> and an \<open>error_description\<close> raises a \<open>ClientError\<close>
  with the description as its message, a 503 with an \<open>error\<close> raises a \<open>ServerError\<close>,
  and a 204 comes back as it is.
\<close>

theorem C9_error_handler_witness:
  "error_handler (demo_env token_response token_response [])
     (json_response 404 ''Not Found''
        (PDict [(''error'', PStr ''not_found''), (''error_description'', PStr ''no such ride'')]))
   = Inl (ClientError (PStr ''no such ride'') [Bare (PStr ''no such ride'')] (PStr ''not_found'')
       (json_response 404 ''Not Found''
          (PDict [(''error'', PStr ''not_found''), (''error_description'', PStr ''no such ride'')])))
   \<and> error_handler (demo_env token_response token_response [])
       (json_response 503 ''Service Unavailable'' (PDict [(''error'', PStr ''server_error'')]))
     = Inl (ServerError (PStr server_default_message) None (PStr ''server_error'')
         (json_response 503 ''Service Unavailable'' (PDict [(''error'', PStr ''server_error'')])))
   \<and> error_handler (demo_env token_response token_response [])
       (json_response 204 ''No Content'' PNone)
     = Inr (json_response 204 ''No Content'' PNone)"
proof -
  let ?E = "demo_env token_response token_response []"
  let ?b1 = "[(''error'', PStr ''not_found''), (''error_description'', PStr ''no such ride'')]"
  let ?r1 = "json_response 404 ''Not Found'' (PDict ?b1)"
  let ?r2 = "json_response 503 ''Service Unavailable'' (PDict [(''error'', PStr ''server_error'')])"
  let ?r3 = "json_response 204 ''No Content'' PNone"
  have a1: "adapt_response ?E ?r1 = Inr ([Bare (PStr ''no such ride'')], PStr ''not_found'')"
    by (simp add: adapt_response_def simple_response_to_error_adapter_def json_response_def
        dict_has_def dict_get_def)
  have a2: "adapt_response ?E ?r2 = Inr ([], PStr ''server_error'')"
    by (simp add: adapt_response_def simple_response_to_error_adapter_def json_response_def
        dict_has_def dict_get_def)
  have a: "error_handler ?E ?r1
      = Inl (ClientError (PStr ''no such ride'') [Bare (PStr ''no such ride'')]
               (PStr ''not_found'') ?r1)"
    using C9_error_handler [where E = ?E and r = ?r1 and body = ?b1
        and message = "PStr ''no such ride''"] a1
    by (simp add: json_response_def dict_has_def dict_get_def raise_ClientError_def)
  have b: "error_handler ?E ?r2
      = Inl (ServerError (PStr server_default_message) None (PStr ''server_error'') ?r2)"
    using C9_error_handler [where E = ?E and r = ?r2 and body = "[]" and message = PNone] a2
    by (simp add: json_response_def raise_ServerError_def ServerError_adapt_response_def)
  have c: "error_handler ?E ?r3 = Inr ?r3"
    using C9_error_handler [where E = ?E and r = ?r3 and body = "[]" and message = PNone]
    by (simp add: json_response_def)
  show ?thesis using a b c by simp
qed

section \<open>Requesting an access token\<close>




section \<open>A credential from a token response\<close>

text \<open>
  What \<open>split\<close> returns: every token is a non-empty run without whitespace, and the
  tokens, put together, are the string without its whitespace.
\<close>

lemma split_from_tokens:
  "t \<in> set (split_from cur s) \<Longrightarrow> \<forall>c \<in> set cur. \<not> is_space c \<Longrightarrow>
   t \<noteq> [] \<and> (\<forall>c \<in> set t. \<not> is_space c)"
proof (induction s arbitrary: cur)
  case Nil
  then show ?case by (auto split: if_splits)
next
  case (Cons a s)
  show ?case
  proof (cases "is_space a")
    case True
    with Cons.prems have "t = cur \<and> cur \<noteq> [] \<or> t \<in> set (split_from [] s)"
      by (auto split: if_splits)
    then show ?thesis using Cons.IH [of "[]"] Cons.prems(2) by auto
  next
    case False
    with Cons.prems have "t \<in> set (split_from (cur @ [a]) s)" by simp
    then show ?thesis using Cons.IH [of "cur @ [a]"] Cons.prems(2) False by auto
  qed
qed

lemma concat_split_from:
  "concat (split_from cur s) = cur @ filter (\<lambda>c. \<not> is_space c) s"
  by (induction s arbitrary: cur) auto

lemma py_split_tokens:
  "t \<in> set (py_split s) \<Longrightarrow> t \<noteq> [] \<and> (\<forall>c \<in> set t. \<not> is_space c)"
  using split_from_tokens [of t "[]" s] by (simp add: py_split_def)

lemma concat_py_split: "concat (py_split s) = filter (\<lambda>c. \<not> is_space c) s"
  by (simp add: py_split_def concat_split_from)

text \<open>\<open>int\<close> of a float drops the fractional part, towards zero.\<close>

lemma py_int_float_truncates:
  assumes "py_int E (PFloat (FloatVal q)) = Inr n"
  shows "\<bar>of_int n\<bar> \<le> \<bar>q\<bar>" and "\<bar>q - of_int n\<bar> < 1"
    and "q = of_int k \<Longrightarrow> n = k"
proof -
  from assms have n: "n = (if 0 \<le> q then \<lfloor>q\<rfloor> else \<lceil>q\<rceil>)" by simp
  show "\<bar>of_int n\<bar> \<le> \<bar>q\<bar>"
  proof (cases "0 \<le> q")
    case True
    with n have "n = \<lfloor>q\<rfloor>" by simp
    moreover from True have "0 \<le> \<lfloor>q\<rfloor>" by simp
    moreover have "of_int \<lfloor>q\<rfloor> \<le> q" by (rule of_int_floor_le)
    ultimately show ?thesis using True by simp
  next
    case False
    with n have e: "n = \<lceil>q\<rceil>" by simp
    from False have "\<lceil>q\<rceil> \<le> 0" by (simp add: ceiling_le_zero)
    then have "(of_int \<lceil>q\<rceil> :: rat) \<le> 0" by simp
    moreover have "q \<le> of_int \<lceil>q\<rceil>" by (rule le_of_int_ceiling)
    ultimately show ?thesis using False e by simp
  qed
  show "\<bar>q - of_int n\<bar> < 1"
  proof (cases "0 \<le> q")
    case True
    with n have e: "n = \<lfloor>q\<rfloor>" by simp
    have "of_int \<lfloor>q\<rfloor> \<le> q" and "q < of_int \<lfloor>q\<rfloor> + 1"
      by (rule of_int_floor_le) linarith
    then show ?thesis unfolding e by linarith
  next
    case False
    with n have e: "n = \<lceil>q\<rceil>" by simp
    have "q \<le> of_int \<lceil>q\<rceil>" and "of_int \<lceil>q\<rceil> < q + 1"
      by (rule le_of_int_ceiling) linarith
    then show ?thesis unfolding e by linarith
  qed
  show "q = of_int k \<Longrightarrow> n = k" using n by auto
qed

lemma py_int_not_in_taxonomy: "py_int E v = Inl x \<Longrightarrow> \<not> in_taxonomy x"
  by (induction E v rule: py_int.induct) (auto split: option.splits)

text \<open>
  C10, as stated: a 200 response whose JSON body has a string \<open>scope\<close> gives a
  credential. It fails for a body with a string \<open>scope\<close> and no \<open>expires_in\<close>: the
  constructor's \<open>int(None)\<close> raises \<open>TypeError\<close>, and no credential is returned.
\<close>

theorem C10_scope_without_expires_in:
  "dict_get [(''access_token'', PStr ''tok''), (''scope'', PStr ''public profile'')] ''scope''
     = PStr ''public profile''
   \<and> make_from_response (demo_env token_response token_response [])
       \<lparr>clock = 100, wire = []\<rparr>
       (json_response 200 ''OK''
          (PDict [(''access_token'', PStr ''tok''), (''scope'', PStr ''public profile'')]))
       CLIENT_CREDENTIAL_GRANT ''id'' (Some ''secret'')
     = Inl TypeError"
  by (simp add: make_from_response_def json_response_def dict_get_def)

text \<open>
  C10, amended: for a 200 response whose body is a JSON object with a string \<open>scope\<close> and
  an \<open>expires_in\<close> that \<open>int\<close> converts, \<open>make_from_response\<close> returns a credential whose
  scopes are the set of the whitespace-separated tokens of that string, whose expiry is
  the time of the call plus \<open>expires_in\<close>, and whose tokens are those of the body. For a
  200 response whose body is a JSON object without a string \<open>scope\<close>, it returns no
  credential and raises \<open>AttributeError\<close>, which is none of the library's errors.
\<close>

theorem C10_make_from_response:
  assumes ok: "status_code r = 200"
      and body: "json_body r = Some (PDict body)"
  shows "(dict_get body ''scope'' = PStr s \<longrightarrow> py_int E (dict_get body ''expires_in'') = Inr n \<longrightarrow>
            (\<exists>c. make_from_response E w r gt cid secret = Inr c
                 \<and> scopes c = PSet (set (py_split s))
                 \<and> expires_in_seconds c = clock w + n
                 \<and> access_token c = dict_get body ''access_token''
                 \<and> refresh_token c = dict_get body ''refresh_token''
                 \<and> client_id c = cid \<and> client_secret c = secret \<and> grant_type c = gt)
          \<and> (\<forall>t \<in> set (py_split s). t \<noteq> [] \<and> (\<forall>ch \<in> set t. \<not> is_space ch))
          \<and> concat (py_split s) = filter (\<lambda>ch. \<not> is_space ch) s)
       \<and> ((\<forall>s. dict_get body ''scope'' \<noteq> PStr s) \<longrightarrow>
            make_from_response E w r gt cid secret = Inl AttributeError
          \<and> \<not> in_taxonomy AttributeError)
       \<and> (\<not> dict_has body ''scope'' \<longrightarrow> (\<forall>s. dict_get body ''scope'' \<noteq> PStr s))
       \<and> (dict_get body ''scope'' = PStr s \<longrightarrow>
            (\<forall>x. py_int E (dict_get body ''expires_in'') = Inl x \<longrightarrow>
               make_from_response E w r gt cid secret = Inl x \<and> \<not> in_taxonomy x))"
proof -
  have a: "dict_get body ''scope'' = PStr s \<longrightarrow> py_int E (dict_get body ''expires_in'') = Inr n \<longrightarrow>
            (\<exists>c. make_from_response E w r gt cid secret = Inr c
                 \<and> scopes c = PSet (set (py_split s))
                 \<and> expires_in_seconds c = clock w + n
                 \<and> access_token c = dict_get body ''access_token''
                 \<and> refresh_token c = dict_get body ''refresh_token''
                 \<and> client_id c = cid \<and> client_secret c = secret \<and> grant_type c = gt)"
    using ok body
    by (simp add: make_from_response_def OAuth2Credential_init_def now_def)
  have b: "\<forall>t \<in> set (py_split s). t \<noteq> [] \<and> (\<forall>ch \<in> set t. \<not> is_space ch)"
    using py_split_tokens by blast
  have c: "(\<forall>s. dict_get body ''scope'' \<noteq> PStr s) \<longrightarrow>
            make_from_response E w r gt cid secret = Inl AttributeError"
    using ok body
    by (cases "dict_get body ''scope''") (simp_all add: make_from_response_def)
  have d: "\<not> dict_has body ''scope'' \<longrightarrow> (\<forall>s. dict_get body ''scope'' \<noteq> PStr s)"
    by (simp add: dict_has_get)
  have e: "dict_get body ''scope'' = PStr s \<longrightarrow>
            (\<forall>x. py_int E (dict_get body ''expires_in'') = Inl x \<longrightarrow>
               make_from_response E w r gt cid secret = Inl x \<and> \<not> in_taxonomy x)"
    using ok body py_int_not_in_taxonomy [of E "dict_get body ''expires_in''"]
    by (simp add: make_from_response_def)
  show ?thesis using a b c d e concat_py_split [of s] by simp
qed

text \<open>
  The token response of the example server gives a credential with the scopes
  \<open>public\<close> and \<open>profile\<close>, expiring 3600 seconds after the call; a body without
  \<open>scope\<close> gives none; and a body whose scopes are separated by a no-break space and
  whose \<open>expires_in\<close> is 3600.7 gives a credential with the two scopes, expiring 3600
  seconds after the call.
\<close>

theorem C10_make_from_response_witness:
  "make_from_response (demo_env token_response token_response []) \<lparr>clock = 100, wire = []\<rparr>
     token_response CLIENT_CREDENTIAL_GRANT ''id'' (Some ''secret'')
   = Inr \<lparr> client_id = ''id'', access_token = PStr ''fresh-token'', expires_in_seconds = 3700,
           scopes = PSet {''public'', ''profile''}, grant_type = CLIENT_CREDENTIAL_GRANT,
           client_secret = Some ''secret'', refresh_token = PStr ''refresh-2'' \<rparr>
   \<and> make_from_response (demo_env token_response token_response []) \<lparr>clock = 100, wire = []\<rparr>
       (json_response 200 ''OK'' (PDict [(''access_token'', PStr ''tok''), (''expires_in'', PInt 60)]))
       CLIENT_CREDENTIAL_GRANT ''id'' (Some ''secret'')
     = Inl AttributeError
   \<and> make_from_response (demo_env token_response token_response []) \<lparr>clock = 100, wire = []\<rparr>
       (json_response 200 ''OK''
          (PDict [(''access_token'', PStr ''tok''),
                  (''expires_in'', PFloat (FloatVal (36007 / 10))),
                  (''scope'', PStr [CHR ''a'', CHR 0xA0, CHR ''b''])]))
       CLIENT_CREDENTIAL_GRANT ''id'' (Some ''secret'')
     = Inr \<lparr> client_id = ''id'', access_token = PStr ''tok'', expires_in_seconds = 3700,
             scopes = PSet {''a'', ''b''}, grant_type = CLIENT_CREDENTIAL_GRANT,
             client_secret = Some ''secret'', refresh_token = PNone \<rparr>"
proof -
  let ?E = "demo_env token_response token_response []"
  let ?w = "\<lparr>clock = 100, wire = []\<rparr>"
  let ?b3 = "[(''access_token'', PStr ''tok''),
              (''expires_in'', PFloat (FloatVal (36007 / 10))),
              (''scope'', PStr [CHR ''a'', CHR 0xA0, CHR ''b''])]"
  let ?r3 = "json_response 200 ''OK'' (PDict ?b3)"
  have s3: "status_code ?r3 = 200" and j3: "json_body ?r3 = Some (PDict ?b3)"
    by (simp_all add: json_response_def)
  have sp3: "py_split [CHR ''a'', CHR 0xA0, CHR ''b''] = [''a'', ''b'']"
    by (simp add: py_split_def is_space_def)
  have i3: "py_int ?E (PFloat (FloatVal (36007 / 10))) = Inr 3600"
    by (simp add: floor_eq_iff)
  have c: "make_from_response ?E ?w ?r3 CLIENT_CREDENTIAL_GRANT ''id'' (Some ''secret'')
      = Inr \<lparr> client_id = ''id'', access_token = PStr ''tok'', expires_in_seconds = 3700,
             scopes = PSet {''a'', ''b''}, grant_type = CLIENT_CREDENTIAL_GRANT,
             client_secret = Some ''secret'', refresh_token = PNone \<rparr>"
    using C10_make_from_response [OF s3 j3, where s = "[CHR ''a'', CHR 0xA0, CHR ''b'']"
        and n = 3600 and E = ?E and w = ?w and gt = CLIENT_CREDENTIAL_GRANT and cid = "''id''"
        and secret = "Some ''secret''"] sp3 i3
    by (auto simp: dict_get_def)
  let ?b1 = "[(''access_token'', PStr ''fresh-token''), (''expires_in'', PInt 3600),
              (''scope'', PStr ''public profile''), (''refresh_token'', PStr ''refresh-2'')]"
  let ?b2 = "[(''access_token'', PStr ''tok''), (''expires_in'', PInt 60)]"
  let ?r2 = "json_response 200 ''OK'' (PDict ?b2)"
  have s1: "status_code token_response = 200" and j1: "json_body token_response = Some (PDict ?b1)"
    by (simp_all add: token_response_def json_response_def)
  have s2: "status_code ?r2 = 200" and j2: "json_body ?r2 = Some (PDict ?b2)"
    by (simp_all add: json_response_def)
  have sp: "py_split ''public profile'' = [''public'', ''profile'']"
    by (simp add: py_split_def is_space_def)
  have a: "make_from_response ?E ?w token_response CLIENT_CREDENTIAL_GRANT ''id'' (Some ''secret'')
      = Inr \<lparr> client_id = ''id'', access_token = PStr ''fresh-token'', expires_in_seconds = 3700,
           scopes = PSet {''public'', ''profile''}, grant_type = CLIENT_CREDENTIAL_GRANT,
           client_secret = Some ''secret'', refresh_token = PStr ''refresh-2'' \<rparr>"
    using C10_make_from_response [OF s1 j1, where s = "''public profile''" and n = 3600
        and E = ?E and w = ?w and gt = CLIENT_CREDENTIAL_GRANT and cid = "''id''"
        and secret = "Some ''secret''"] sp
    by (auto simp: dict_get_def)
  have b: "make_from_response ?E ?w ?r2 CLIENT_CREDENTIAL_GRANT ''id'' (Some ''secret'')
      = Inl AttributeError"
    using C10_make_from_response [OF s2 j2, where s = "''''" and n = 0
        and E = ?E and w = ?w and gt = CLIENT_CREDENTIAL_GRANT and cid = "''id''"
        and secret = "Some ''secret''"]
    by (simp add: dict_get_def)
  show ?thesis using a b c by simp
qed

section \<open>Refreshing an access token\<close>

lemma Session_init_Some:
  "Session_init (Some c) = Inr \<lparr>oauth2credential = c, token_type = OAUTH_TOKEN_TYPE\<rparr>"
  by (simp add: Session_init_def)

lemma grant_constants_differ:
  "AUTHORIZATION_CODE_GRANT \<noteq> CLIENT_CREDENTIAL_GRANT"
  by (simp add: AUTHORIZATION_CODE_GRANT_def CLIENT_CREDENTIAL_GRANT_def)

text \<open>
  What the two supported branches of \<open>refresh_access_token\<close> do with the request they are
  given: send it, and turn a 200 response into a session with a new credential.
\<close>

lemma refresh_authorization_code:
  assumes "grant_type c = AUTHORIZATION_CODE_GRANT"
      and "rq = token_request E REFRESH_TOKEN (Some (client_id c)) (client_secret c) PNone None
                 (refresh_token c)"
      and "r = post E (wire w) rq"
      and "w' = w\<lparr>wire := wire w @ [rq]\<rparr>"
  shows "refresh_access_token E c w =
           (if status_code r = 200 then
              (case make_from_response E w' r (grant_type c) (client_id c) (client_secret c) of
                 Inl x \<Rightarrow> (Inl x, w')
               | Inr c' \<Rightarrow> (Inr \<lparr>oauth2credential = c', token_type = OAUTH_TOKEN_TYPE\<rparr>, w'))
            else (Inl (raise_ClientError E r
                         (PStr (''Failed to request access token: '' @ reason r @ ''.''))), w'))"
  using assms
  by (simp add: refresh_access_token_def request_access_token_def Let_def Session_init_Some
      split: sum.splits)

lemma refresh_client_credentials:
  assumes "grant_type c = CLIENT_CREDENTIAL_GRANT"
      and "rq = token_request E CLIENT_CREDENTIAL_GRANT (Some (client_id c)) (client_secret c)
                 (scopes c) None PNone"
      and "r = post E (wire w) rq"
      and "w' = w\<lparr>wire := wire w @ [rq]\<rparr>"
  shows "refresh_access_token E c w =
           (if status_code r = 200 then
              (case make_from_response E w' r (grant_type c) (client_id c) (client_secret c) of
                 Inl x \<Rightarrow> (Inl x, w')
               | Inr c' \<Rightarrow> (Inr \<lparr>oauth2credential = c', token_type = OAUTH_TOKEN_TYPE\<rparr>, w'))
            else (Inl (raise_ClientError E r
                         (PStr (''Failed to request access token: '' @ reason r @ ''.''))), w'))"
  using assms grant_constants_differ
  by (simp add: refresh_access_token_def request_access_token_def Let_def Session_init_Some
      split: sum.splits)

lemma refresh_unsupported:
  assumes "grant_type c \<noteq> AUTHORIZATION_CODE_GRANT" and "grant_type c \<noteq> CLIENT_CREDENTIAL_GRANT"
  shows "refresh_access_token E c w = (Inl (LyftIllegalState (NoRefreshTokens (grant_type c))), w)"
  using assms by (simp add: refresh_access_token_def)

text \<open>
  C5: \<open>refresh_access_token\<close> dispatches on the grant type of the credential. For an
  authorization-code credential it sends one token request with the grant type
  \<open>refresh_token\<close> and the credential's refresh token, without scopes and without a code;
  for a client-credentials credential it sends one token request with the credential's
  secret and scopes and without a refresh token. In both cases a 200 response that
  \<open>make_from_response\<close> accepts gives a new session around the new credential, which
  keeps the grant type, the client identifier and the secret. For any other grant type
  nothing is sent and the call raises \<open>LyftIllegalState\<close>, whose message says that the
  grant type does not support refresh tokens.
\<close>

theorem C5_refresh_access_token:
  "(grant_type c = AUTHORIZATION_CODE_GRANT \<longrightarrow>
      (\<exists>rq. rq = TokenPost (Some (client_id c), client_secret c)
                    \<lparr> arg_grant_type = REFRESH_TOKEN,
                      arg_client_id = Some (client_id c),
                      arg_client_secret = client_secret c,
                      arg_scope = PNone,
                      arg_code = None,
                      arg_refresh_token = refresh_token c \<rparr>
           \<and> snd (refresh_access_token E c w) = w\<lparr>wire := wire w @ [rq]\<rparr>
           \<and> (\<forall>c'. status_code (post E (wire w) rq) = 200 \<longrightarrow>
                 make_from_response E (w\<lparr>wire := wire w @ [rq]\<rparr>) (post E (wire w) rq)
                   (grant_type c) (client_id c) (client_secret c) = Inr c' \<longrightarrow>
                 fst (refresh_access_token E c w)
                   = Inr \<lparr>oauth2credential = c', token_type = OAUTH_TOKEN_TYPE\<rparr>)))
   \<and> (grant_type c = CLIENT_CREDENTIAL_GRANT \<longrightarrow>
      (\<exists>rq. rq = TokenPost (Some (client_id c), client_secret c)
                    \<lparr> arg_grant_type = CLIENT_CREDENTIAL_GRANT,
                      arg_client_id = Some (client_id c),
                      arg_client_secret = client_secret c,
                      arg_scope = (case scopes c of
                                     PSet S \<Rightarrow> PStr (py_join '' '' (set_iter E S))
                                   | other \<Rightarrow> scopes c),
                      arg_code = None,
                      arg_refresh_token = PNone \<rparr>
           \<and> snd (refresh_access_token E c w) = w\<lparr>wire := wire w @ [rq]\<rparr>
           \<and> (\<forall>c'. status_code (post E (wire w) rq) = 200 \<longrightarrow>
                 make_from_response E (w\<lparr>wire := wire w @ [rq]\<rparr>) (post E (wire w) rq)
                   (grant_type c) (client_id c) (client_secret c) = Inr c' \<longrightarrow>
                 fst (refresh_access_token E c w)
                   = Inr \<lparr>oauth2credential = c', token_type = OAUTH_TOKEN_TYPE\<rparr>)))
   \<and> (grant_type c \<noteq> AUTHORIZATION_CODE_GRANT \<longrightarrow> grant_type c \<noteq> CLIENT_CREDENTIAL_GRANT \<longrightarrow>
        refresh_access_token E c w = (Inl (LyftIllegalState (NoRefreshTokens (grant_type c))), w)
      \<and> illegal_state_message (NoRefreshTokens (grant_type c))
          = grant_type c @ '' Grant Type does not support Refresh Tokens.'')"
proof -
  have a: "grant_type c = AUTHORIZATION_CODE_GRANT \<longrightarrow>
      (\<exists>rq. rq = TokenPost (Some (client_id c), client_secret c)
                    \<lparr> arg_grant_type = REFRESH_TOKEN,
                      arg_client_id = Some (client_id c),
                      arg_client_secret = client_secret c,
                      arg_scope = PNone,
                      arg_code = None,
                      arg_refresh_token = refresh_token c \<rparr>
           \<and> snd (refresh_access_token E c w) = w\<lparr>wire := wire w @ [rq]\<rparr>
           \<and> (\<forall>c'. status_code (post E (wire w) rq) = 200 \<longrightarrow>
                 make_from_response E (w\<lparr>wire := wire w @ [rq]\<rparr>) (post E (wire w) rq)
                   (grant_type c) (client_id c) (client_secret c) = Inr c' \<longrightarrow>
                 fst (refresh_access_token E c w)
                   = Inr \<lparr>oauth2credential = c', token_type = OAUTH_TOKEN_TYPE\<rparr>))"
  proof
    assume g: "grant_type c = AUTHORIZATION_CODE_GRANT"
    let ?rq = "token_request E REFRESH_TOKEN (Some (client_id c)) (client_secret c) PNone None
                 (refresh_token c)"
    have eq: "?rq = TokenPost (Some (client_id c), client_secret c)
                    \<lparr> arg_grant_type = REFRESH_TOKEN,
                      arg_client_id = Some (client_id c),
                      arg_client_secret = client_secret c,
                      arg_scope = PNone,
                      arg_code = None,
                      arg_refresh_token = refresh_token c \<rparr>"
      by (simp add: token_request_def)
    show "\<exists>rq. rq = TokenPost (Some (client_id c), client_secret c)
                    \<lparr> arg_grant_type = REFRESH_TOKEN,
                      arg_client_id = Some (client_id c),
                      arg_client_secret = client_secret c,
                      arg_scope = PNone,
                      arg_code = None,
                      arg_refresh_token = refresh_token c \<rparr>
           \<and> snd (refresh_access_token E c w) = w\<lparr>wire := wire w @ [rq]\<rparr>
           \<and> (\<forall>c'. status_code (post E (wire w) rq) = 200 \<longrightarrow>
                 make_from_response E (w\<lparr>wire := wire w @ [rq]\<rparr>) (post E (wire w) rq)
                   (grant_type c) (client_id c) (client_secret c) = Inr c' \<longrightarrow>
                 fst (refresh_access_token E c w)
                   = Inr \<lparr>oauth2credential = c', token_type = OAUTH_TOKEN_TYPE\<rparr>)"
      unfolding eq [symmetric]
      using refresh_authorization_code [OF g refl refl refl, of E w]
      by (auto split: sum.splits)
  qed
  have b: "grant_type c = CLIENT_CREDENTIAL_GRANT \<longrightarrow>
      (\<exists>rq. rq = TokenPost (Some (client_id c), client_secret c)
                    \<lparr> arg_grant_type = CLIENT_CREDENTIAL_GRANT,
                      arg_client_id = Some (client_id c),
                      arg_client_secret = client_secret c,
                      arg_scope = (case scopes c of
                                     PSet S \<Rightarrow> PStr (py_join '' '' (set_iter E S))
                                   | other \<Rightarrow> scopes c),
                      arg_code = None,
                      arg_refresh_token = PNone \<rparr>
           \<and> snd (refresh_access_token E c w) = w\<lparr>wire := wire w @ [rq]\<rparr>
           \<and> (\<forall>c'. status_code (post E (wire w) rq) = 200 \<longrightarrow>
                 make_from_response E (w\<lparr>wire := wire w @ [rq]\<rparr>) (post E (wire w) rq)
                   (grant_type c) (client_id c) (client_secret c) = Inr c' \<longrightarrow>
                 fst (refresh_access_token E c w)
                   = Inr \<lparr>oauth2credential = c', token_type = OAUTH_TOKEN_TYPE\<rparr>))"
  proof
    assume g: "grant_type c = CLIENT_CREDENTIAL_GRANT"
    let ?rq = "token_request E CLIENT_CREDENTIAL_GRANT (Some (client_id c)) (client_secret c)
                 (scopes c) None PNone"
    have eq: "?rq = TokenPost (Some (client_id c), client_secret c)
                    \<lparr> arg_grant_type = CLIENT_CREDENTIAL_GRANT,
                      arg_client_id = Some (client_id c),
                      arg_client_secret = client_secret c,
                      arg_scope = (case scopes c of
                                     PSet S \<Rightarrow> PStr (py_join '' '' (set_iter E S))
                                   | other \<Rightarrow> scopes c),
                      arg_code = None,
                      arg_refresh_token = PNone \<rparr>"
      by (simp add: token_request_def)
    show "\<exists>rq. rq = TokenPost (Some (client_id c), client_secret c)
                    \<lparr> arg_grant_type = CLIENT_CREDENTIAL_GRANT,
                      arg_client_id = Some (client_id c),
                      arg_client_secret = client_secret c,
                      arg_scope = (case scopes c of
                                     PSet S \<Rightarrow> PStr (py_join '' '' (set_iter E S))
                                   | other \<Rightarrow> scopes c),
                      arg_code = None,
                      arg_refresh_token = PNone \<rparr>
           \<and> snd (refresh_access_token E c w) = w\<lparr>wire := wire w @ [rq]\<rparr>
           \<and> (\<forall>c'. status_code (post E (wire w) rq) = 200 \<longrightarrow>
                 make_from_response E (w\<lparr>wire := wire w @ [rq]\<rparr>) (post E (wire w) rq)
                   (grant_type c) (client_id c) (client_secret c) = Inr c' \<longrightarrow>
                 fst (refresh_access_token E c w)
                   = Inr \<lparr>oauth2credential = c', token_type = OAUTH_TOKEN_TYPE\<rparr>)"
      unfolding eq [symmetric]
      using refresh_client_credentials [OF g refl refl refl, of E w]
      by (auto split: sum.splits)
  qed
  have c: "grant_type c \<noteq> AUTHORIZATION_CODE_GRANT \<longrightarrow> grant_type c \<noteq> CLIENT_CREDENTIAL_GRANT \<longrightarrow>
        refresh_access_token E c w = (Inl (LyftIllegalState (NoRefreshTokens (grant_type c))), w)
      \<and> illegal_state_message (NoRefreshTokens (grant_type c))
          = grant_type c @ '' Grant Type does not support Refresh Tokens.''"
    by (simp add: refresh_unsupported)
  show ?thesis by (rule conjI [OF a conjI [OF b c]])
qed

text \<open>
  Against the example server, an authorization-code credential is refreshed with its
  refresh token and comes back with the server's new tokens, and a credential of the
  implicit grant is refused.
\<close>

theorem C5_refresh_access_token_witness:
  "refresh_access_token (demo_env token_response token_response [])
     \<lparr> client_id = ''id'', access_token = PStr ''old-token'', expires_in_seconds = 50,
       scopes = PSet {''public''}, grant_type = AUTHORIZATION_CODE_GRANT,
       client_secret = Some ''secret'', refresh_token = PStr ''refresh-1'' \<rparr>
     \<lparr>clock = 100, wire = []\<rparr>
   = (Inr \<lparr> oauth2credential =
               \<lparr> client_id = ''id'', access_token = PStr ''fresh-token'',
                 expires_in_seconds = 3700, scopes = PSet {''public'', ''profile''},
                 grant_type = AUTHORIZATION_CODE_GRANT, client_secret = Some ''secret'',
                 refresh_token = PStr ''refresh-2'' \<rparr>,
             token_type = OAUTH_TOKEN_TYPE \<rparr>,
      \<lparr> clock = 100,
        wire = [TokenPost (Some ''id'', Some ''secret'')
                  \<lparr> arg_grant_type = REFRESH_TOKEN, arg_client_id = Some ''id'',
                    arg_client_secret = Some ''secret'', arg_scope = PNone, arg_code = None,
                    arg_refresh_token = PStr ''refresh-1'' \<rparr>] \<rparr>)
   \<and> refresh_access_token (demo_env token_response token_response [])
       \<lparr> client_id = ''id'', access_token = PStr ''old-token'', expires_in_seconds = 50,
         scopes = PSet {''public''}, grant_type = ''implicit'',
         client_secret = None, refresh_token = PNone \<rparr>
       \<lparr>clock = 100, wire = []\<rparr>
     = (Inl (LyftIllegalState (NoRefreshTokens ''implicit'')), \<lparr>clock = 100, wire = []\<rparr>)"
proof -
  let ?E = "demo_env token_response token_response []"
  let ?w = "\<lparr>clock = 100, wire = []\<rparr>"
  let ?c1 = "\<lparr> client_id = ''id'', access_token = PStr ''old-token'', expires_in_seconds = 50,
       scopes = PSet {''public''}, grant_type = AUTHORIZATION_CODE_GRANT,
       client_secret = Some ''secret'', refresh_token = PStr ''refresh-1'' \<rparr>"
  let ?c2 = "\<lparr> client_id = ''id'', access_token = PStr ''old-token'', expires_in_seconds = 50,
         scopes = PSet {''public''}, grant_type = ''implicit'',
         client_secret = None, refresh_token = PNone \<rparr>"
  let ?rq = "TokenPost (Some ''id'', Some ''secret'')
                  \<lparr> arg_grant_type = REFRESH_TOKEN, arg_client_id = Some ''id'',
                    arg_client_secret = Some ''secret'', arg_scope = PNone, arg_code = None,
                    arg_refresh_token = PStr ''refresh-1'' \<rparr>"
  let ?c' = "\<lparr> client_id = ''id'', access_token = PStr ''fresh-token'',
                 expires_in_seconds = 3700, scopes = PSet {''public'', ''profile''},
                 grant_type = AUTHORIZATION_CODE_GRANT, client_secret = Some ''secret'',
                 refresh_token = PStr ''refresh-2'' \<rparr>"
  have p: "post ?E (wire ?w) ?rq = token_response"
    by (simp add: demo_env_def)
  have s: "status_code token_response = 200"
    by (simp add: token_response_def json_response_def)
  have sp: "py_split ''public profile'' = [''public'', ''profile'']"
    by (simp add: py_split_def is_space_def)
  have m: "make_from_response ?E (?w\<lparr>wire := wire ?w @ [?rq]\<rparr>) token_response
             AUTHORIZATION_CODE_GRANT ''id'' (Some ''secret'') = Inr ?c'"
    using sp
    by (simp add: make_from_response_def token_response_def json_response_def dict_get_def
        OAuth2Credential_init_def now_def)
  have a: "refresh_access_token ?E ?c1 ?w
      = (Inr \<lparr>oauth2credential = ?c', token_type = OAUTH_TOKEN_TYPE\<rparr>, ?w\<lparr>wire := [?rq]\<rparr>)"
    using C5_refresh_access_token [where E = ?E and c = ?c1 and w = ?w] p s m
    by (cases "refresh_access_token ?E ?c1 ?w")
      (simp add: AUTHORIZATION_CODE_GRANT_def CLIENT_CREDENTIAL_GRANT_def)
  have b: "refresh_access_token ?E ?c2 ?w
      = (Inl (LyftIllegalState (NoRefreshTokens ''implicit'')), ?w)"
    using C5_refresh_access_token [where E = ?E and c = ?c2 and w = ?w]
    by (simp add: AUTHORIZATION_CODE_GRANT_def CLIENT_CREDENTIAL_GRANT_def)
  show ?thesis using a b by simp
qed

section \<open>Verifying the redirect\<close>

text \<open>A grant built by the constructor always stores a state token.\<close>

lemma state_token_set:
  "state_token (AuthorizationCodeGrant_init prefix generated cid secret scs sandbox tok) \<noteq> None"
  by (simp add: AuthorizationCodeGrant_init_def split: option.splits)

text \<open>What \<open>_verify_query\<close> does before and after its state check.\<close>

lemma verify_query_missing_state:
  "q ''state'' = None \<Longrightarrow> verify_query g q = Inl (LyftIllegalState MissingStateParameter)"
  by (simp add: verify_query_def)

lemma verify_query_missing_token:
  "q ''state'' = Some received \<Longrightarrow> state_token g = None \<Longrightarrow>
   verify_query g q = Inl (LyftIllegalState MissingStateToken)"
  by (simp add: verify_query_def)

lemma verify_query_csrf:
  "q ''state'' = Some received \<Longrightarrow> state_token g = Some tok \<Longrightarrow> tok \<noteq> received \<Longrightarrow>
   verify_query g q = Inl (LyftIllegalState (CSRFError tok received))"
  by (simp add: verify_query_def)

lemma verify_query_state_passed:
  "q ''state'' = Some tok \<Longrightarrow> state_token g = Some tok \<Longrightarrow>
   verify_query g q = Inl (LyftIllegalState CodeAndErrorBothSet)
   \<or> verify_query g q = Inl (LyftIllegalState NeitherCodeNorError)
   \<or> (\<exists>e. verify_query g q = Inl (LyftIllegalState (AuthorizationError e)))
   \<or> (\<exists>code. verify_query g q = Inr code)"
  by (simp add: verify_query_def Let_def split: option.splits)

lemma verify_query_failed_iff:
  "state_check_failed (verify_query g q)
   \<longleftrightarrow> \<not> (\<exists>tok. q ''state'' = Some tok \<and> state_token g = Some tok)"
proof (cases "q ''state''")
  case None
  then show ?thesis by (simp add: verify_query_missing_state)
next
  case (Some received)
  show ?thesis
  proof (cases "state_token g")
    case None
    with Some show ?thesis by (simp add: verify_query_missing_token)
  next
    case (Some tok)
    show ?thesis
    proof (cases "tok = received")
      case True
      with Some \<open>q ''state'' = Some received\<close>
      have "q ''state'' = Some tok" and "state_token g = Some tok" by simp_all
      from verify_query_state_passed [of q tok g] this show ?thesis by auto
    next
      case False
      with Some \<open>q ''state'' = Some received\<close> show ?thesis
        by (simp add: verify_query_csrf)
    qed
  qed
qed

lemma make_from_response_not_illegal:
  "make_from_response E w r gt cid secret \<noteq> Inl (LyftIllegalState s)"
proof
  assume a: "make_from_response E w r gt cid secret = Inl (LyftIllegalState s)"
  show False
  proof (cases "status_code r = 200")
    case False
    with a raise_ClientError_not_illegal show False
      by (simp add: make_from_response_def)
  next
    case True
    with a py_int_not_in_taxonomy [of E _ "LyftIllegalState s"] show False
      by (auto simp: make_from_response_def Let_def
          split: option.splits pyval.splits sum.splits)
  qed
qed

text \<open>
  Once the query is verified, \<open>get_session\<close> only raises what the token request and
  the construction of the credential raise, neither of which is a \<open>LyftIllegalState\<close>.
\<close>

lemma get_session_after_verify:
  assumes "verify_query g (extract_query E url) = Inr code"
  shows "fst (get_session E g url w) \<noteq> Inl (LyftIllegalState s)"
proof -
  obtain res w' where rq: "request_access_token E AUTHORIZATION_CODE_GRANT (Some (g_client_id g))
      (Some (g_client_secret g)) PNone code PNone w = (res, w')"
    by (cases "request_access_token E AUTHORIZATION_CODE_GRANT (Some (g_client_id g))
      (Some (g_client_secret g)) PNone code PNone w") auto
  show ?thesis
  proof (cases res)
    case (Inl x)
    with rq have "x = raise_ClientError E (post E (wire w) (token_request E AUTHORIZATION_CODE_GRANT
        (Some (g_client_id g)) (Some (g_client_secret g)) PNone code PNone))
        (PStr (''Failed to request access token: '' @ reason (post E (wire w) (token_request E
        AUTHORIZATION_CODE_GRANT (Some (g_client_id g)) (Some (g_client_secret g)) PNone code
        PNone)) @ ''.''))"
      by (auto simp: request_access_token_def Let_def split: if_splits)
    then have "x \<noteq> LyftIllegalState s"
      using raise_ClientError_not_illegal by simp
    with Inl rq assms show ?thesis
      by (simp add: get_session_def Let_def)
  next
    case (Inr r)
    with rq assms make_from_response_not_illegal [of E w' r AUTHORIZATION_CODE_GRANT
        "g_client_id g" "Some (g_client_secret g)" s]
    show ?thesis
      by (auto simp: get_session_def Let_def Session_init_Some split: sum.splits)
  qed
qed

lemma get_session_verify_error:
  "verify_query g (extract_query E url) = Inl x \<Longrightarrow> get_session E g url w = (Inl x, w)"
  by (simp add: get_session_def Let_def)

lemma state_check_failed_Inl:
  "state_check_failed (Inl x) \<longleftrightarrow>
     x = LyftIllegalState MissingStateParameter \<or> x = LyftIllegalState MissingStateToken
     \<or> (\<exists>expected got. x = LyftIllegalState (CSRFError expected got))"
proof (cases x)
  case (LyftIllegalState s)
  then show ?thesis by (cases s) simp_all
qed simp_all

lemma get_session_failed_iff:
  "state_check_failed (fst (get_session E g url w))
   \<longleftrightarrow> state_check_failed (verify_query g (extract_query E url))"
proof (cases "verify_query g (extract_query E url)")
  case (Inl x)
  then show ?thesis by (simp add: get_session_verify_error state_check_failed_Inl)
next
  case (Inr code)
  have "\<not> state_check_failed (fst (get_session E g url w))"
  proof
    assume "state_check_failed (fst (get_session E g url w))"
    then obtain s where "fst (get_session E g url w) = Inl (LyftIllegalState s)"
      by (cases "fst (get_session E g url w)" rule: state_check_failed.cases) auto
    with get_session_after_verify [OF Inr] show False by blast
  qed
  with Inr show ?thesis by simp
qed

text \<open>
  C3: \<open>get_session\<close> raises \<open>LyftIllegalState\<close>, and sends nothing, when the redirect URL
  has no \<open>state\<close> parameter and when its \<open>state\<close> differs from the token the grant
  stores, with both values in the message of the second; and the outcome of
  \<open>get_session\<close> is one of the raises of the state check exactly when the received
  \<open>state\<close> is not the stored token.
\<close>

theorem C3_state_check:
  "(extract_query E url ''state'' = None \<longrightarrow>
      get_session E g url w = (Inl (LyftIllegalState MissingStateParameter), w))
   \<and> (extract_query E url ''state'' = Some received \<longrightarrow> state_token g = Some tok \<longrightarrow>
      tok \<noteq> received \<longrightarrow>
        get_session E g url w = (Inl (LyftIllegalState (CSRFError tok received)), w)
      \<and> illegal_state_message (CSRFError tok received)
          = ''CSRF Error. Expected '' @ tok @ '', got '' @ received)
   \<and> (\<not> state_check_failed (fst (get_session E g url w))
      \<longleftrightarrow> (\<exists>t. extract_query E url ''state'' = Some t \<and> state_token g = Some t))
   \<and> (\<not> state_check_failed (verify_query g q)
      \<longleftrightarrow> (\<exists>t. q ''state'' = Some t \<and> state_token g = Some t))"
proof -
  have a: "extract_query E url ''state'' = None \<longrightarrow>
      get_session E g url w = (Inl (LyftIllegalState MissingStateParameter), w)"
    by (simp add: verify_query_missing_state get_session_verify_error)
  have b: "extract_query E url ''state'' = Some received \<longrightarrow> state_token g = Some tok \<longrightarrow>
      tok \<noteq> received \<longrightarrow>
        get_session E g url w = (Inl (LyftIllegalState (CSRFError tok received)), w)
      \<and> illegal_state_message (CSRFError tok received)
          = ''CSRF Error. Expected '' @ tok @ '', got '' @ received"
    by (simp add: verify_query_csrf get_session_verify_error)
  have c: "\<not> state_check_failed (fst (get_session E g url w))
      \<longleftrightarrow> (\<exists>t. extract_query E url ''state'' = Some t \<and> state_token g = Some t)"
    using get_session_failed_iff [of E g url w] verify_query_failed_iff [of g "extract_query E url"]
    by blast
  have d: "\<not> state_check_failed (verify_query g q)
      \<longleftrightarrow> (\<exists>t. q ''state'' = Some t \<and> state_token g = Some t)"
    using verify_query_failed_iff [of g q] by blast
  show ?thesis by (rule conjI [OF a conjI [OF b conjI [OF c d]]])
qed

text \<open>
  A redirect whose \<open>state\<close> is not the stored token is refused with both values, and one
  whose \<open>state\<close> is the stored token passes the state check.
\<close>

theorem C3_state_check_witness:
  "get_session (demo_env token_response token_response [(''state'', ''evil''), (''code'', ''xyz'')])
     \<lparr> g_client_id = ''id'', g_scopes = PSet {''public''}, g_client_secret = ''secret'',
       state_token = Some ''abc'' \<rparr>
     ''https://app.example/cb?state=evil&code=xyz'' \<lparr>clock = 100, wire = []\<rparr>
   = (Inl (LyftIllegalState (CSRFError ''abc'' ''evil'')), \<lparr>clock = 100, wire = []\<rparr>)
   \<and> \<not> state_check_failed
       (fst (get_session
               (demo_env token_response token_response [(''state'', ''abc''), (''code'', ''xyz'')])
               \<lparr> g_client_id = ''id'', g_scopes = PSet {''public''}, g_client_secret = ''secret'',
                 state_token = Some ''abc'' \<rparr>
               ''https://app.example/cb?state=abc&code=xyz'' \<lparr>clock = 100, wire = []\<rparr>))"
proof -
  let ?g = "\<lparr> g_client_id = ''id'', g_scopes = PSet {''public''}, g_client_secret = ''secret'',
       state_token = Some ''abc'' \<rparr>"
  let ?w = "\<lparr>clock = 100, wire = []\<rparr>"
  let ?E1 = "demo_env token_response token_response [(''state'', ''evil''), (''code'', ''xyz'')]"
  let ?E2 = "demo_env token_response token_response [(''state'', ''abc''), (''code'', ''xyz'')]"
  let ?u1 = "''https://app.example/cb?state=evil&code=xyz''"
  let ?u2 = "''https://app.example/cb?state=abc&code=xyz''"
  have q1: "extract_query ?E1 ?u1 ''state'' = Some ''evil''"
    by (simp add: extract_query_def demo_env_def)
  have q2: "extract_query ?E2 ?u2 ''state'' = Some ''abc''"
    by (simp add: extract_query_def demo_env_def)
  have a: "get_session ?E1 ?g ?u1 ?w = (Inl (LyftIllegalState (CSRFError ''abc'' ''evil'')), ?w)"
    using C3_state_check [where E = ?E1 and url = ?u1 and g = ?g and w = ?w
        and received = "''evil''" and tok = "''abc''"] q1
    by simp
  have b: "\<not> state_check_failed (fst (get_session ?E2 ?g ?u2 ?w))"
    using C3_state_check [where E = ?E2 and url = ?u2 and g = ?g and w = ?w
        and received = "''abc''" and tok = "''abc''"] q2
    by simp
  show ?thesis using a b by simp
qed

text \<open>
  The two truth tests of \<open>_verify_query\<close> take a parameter with an empty value for one
  that is not set. \<open>parse_qs\<close> drops the fields with blank values, so the dictionary
  extracted from a redirect URL holds no such parameter.
\<close>

lemma verify_query_blank_error:
  "q ''state'' = Some tok \<Longrightarrow> state_token g = Some tok \<Longrightarrow> q ''error'' = Some [] \<Longrightarrow>
   verify_query g q = Inr (q ''code'')"
  by (simp add: verify_query_def CODE_RESPONSE_TYPE_def)

text \<open>
  C4: for a redirect URL that passes the state check, and with the query parameters that
  \<open>parse_qs\<close> extracts, none of which has an empty value, \<open>get_session\<close> raises
  \<open>LyftIllegalState\<close> and sends nothing when both \<open>code\<close> and \<open>error\<close> are among them and
  when neither is; with \<open>error\<close> alone it raises \<open>LyftIllegalState\<close> with the error text
  as its message; with \<open>code\<close> alone the verification returns that code, and the token
  request that follows carries it.
\<close>

theorem C4_code_and_error:
  assumes nonblank: "\<forall>k v. extract_query E url k = Some v \<longrightarrow> v \<noteq> []"
      and received: "extract_query E url ''state'' = Some tok"
      and stored: "state_token g = Some tok"
  shows "(extract_query E url ''code'' = Some c \<longrightarrow> extract_query E url ''error'' = Some e \<longrightarrow>
            get_session E g url w = (Inl (LyftIllegalState CodeAndErrorBothSet), w))
       \<and> (extract_query E url ''code'' = None \<longrightarrow> extract_query E url ''error'' = None \<longrightarrow>
            get_session E g url w = (Inl (LyftIllegalState NeitherCodeNorError), w))
       \<and> (extract_query E url ''code'' = None \<longrightarrow> extract_query E url ''error'' = Some e \<longrightarrow>
            get_session E g url w = (Inl (LyftIllegalState (AuthorizationError e)), w)
          \<and> illegal_state_message (AuthorizationError e) = e)
       \<and> (extract_query E url ''code'' = Some c \<longrightarrow> extract_query E url ''error'' = None \<longrightarrow>
            verify_query g (extract_query E url) = Inr (Some c)
          \<and> snd (get_session E g url w)
              = w\<lparr>wire := wire w @
                    [token_request E AUTHORIZATION_CODE_GRANT (Some (g_client_id g))
                       (Some (g_client_secret g)) PNone (Some c) PNone]\<rparr>)"
proof -
  have a: "extract_query E url ''code'' = Some c \<longrightarrow> extract_query E url ''error'' = Some e \<longrightarrow>
            get_session E g url w = (Inl (LyftIllegalState CodeAndErrorBothSet), w)"
  proof (intro impI)
    assume c: "extract_query E url ''code'' = Some c" and e: "extract_query E url ''error'' = Some e"
    from nonblank c e have "c \<noteq> []" and "e \<noteq> []" by blast+
    with c e received stored
    have "verify_query g (extract_query E url) = Inl (LyftIllegalState CodeAndErrorBothSet)"
      by (simp add: verify_query_def CODE_RESPONSE_TYPE_def)
    then show "get_session E g url w = (Inl (LyftIllegalState CodeAndErrorBothSet), w)"
      by (rule get_session_verify_error)
  qed
  have b: "extract_query E url ''code'' = None \<longrightarrow> extract_query E url ''error'' = None \<longrightarrow>
            get_session E g url w = (Inl (LyftIllegalState NeitherCodeNorError), w)"
  proof (intro impI)
    assume "extract_query E url ''code'' = None" and "extract_query E url ''error'' = None"
    with received stored
    have "verify_query g (extract_query E url) = Inl (LyftIllegalState NeitherCodeNorError)"
      by (simp add: verify_query_def CODE_RESPONSE_TYPE_def)
    then show "get_session E g url w = (Inl (LyftIllegalState NeitherCodeNorError), w)"
      by (rule get_session_verify_error)
  qed
  have c: "extract_query E url ''code'' = None \<longrightarrow> extract_query E url ''error'' = Some e \<longrightarrow>
            get_session E g url w = (Inl (LyftIllegalState (AuthorizationError e)), w)
          \<and> illegal_state_message (AuthorizationError e) = e"
  proof (intro impI)
    assume c: "extract_query E url ''code'' = None" and e: "extract_query E url ''error'' = Some e"
    from nonblank e have "e \<noteq> []" by blast
    with c e received stored
    have "verify_query g (extract_query E url) = Inl (LyftIllegalState (AuthorizationError e))"
      by (simp add: verify_query_def CODE_RESPONSE_TYPE_def)
    then have "get_session E g url w = (Inl (LyftIllegalState (AuthorizationError e)), w)"
      by (rule get_session_verify_error)
    then show "get_session E g url w = (Inl (LyftIllegalState (AuthorizationError e)), w)
          \<and> illegal_state_message (AuthorizationError e) = e"
      by simp
  qed
  have d: "extract_query E url ''code'' = Some c \<longrightarrow> extract_query E url ''error'' = None \<longrightarrow>
            verify_query g (extract_query E url) = Inr (Some c)
          \<and> snd (get_session E g url w)
              = w\<lparr>wire := wire w @
                    [token_request E AUTHORIZATION_CODE_GRANT (Some (g_client_id g))
                       (Some (g_client_secret g)) PNone (Some c) PNone]\<rparr>"
  proof (intro impI)
    assume c: "extract_query E url ''code'' = Some c" and e: "extract_query E url ''error'' = None"
    with received stored
    have v: "verify_query g (extract_query E url) = Inr (Some c)"
      by (simp add: verify_query_def CODE_RESPONSE_TYPE_def)
    have "snd (get_session E g url w)
              = w\<lparr>wire := wire w @
                    [token_request E AUTHORIZATION_CODE_GRANT (Some (g_client_id g))
                       (Some (g_client_secret g)) PNone (Some c) PNone]\<rparr>"
      using v
      by (simp add: get_session_def request_access_token_def Let_def split: sum.splits)
    with v show "verify_query g (extract_query E url) = Inr (Some c)
          \<and> snd (get_session E g url w)
              = w\<lparr>wire := wire w @
                    [token_request E AUTHORIZATION_CODE_GRANT (Some (g_client_id g))
                       (Some (g_client_secret g)) PNone (Some c) PNone]\<rparr>"
      by simp
  qed
  show ?thesis by (rule conjI [OF a conjI [OF b conjI [OF c d]]])
qed

text \<open>
  A redirect with \<open>code\<close> and \<open>error\<close> is refused, and a redirect with \<open>code\<close> alone is
  exchanged for a session whose credential holds the server's tokens.
\<close>

theorem C4_code_and_error_witness:
  "get_session
     (demo_env token_response token_response
        [(''state'', ''abc''), (''code'', ''xyz''), (''error'', ''access_denied'')])
     \<lparr> g_client_id = ''id'', g_scopes = PSet {''public''}, g_client_secret = ''secret'',
       state_token = Some ''abc'' \<rparr>
     ''https://app.example/cb?state=abc&code=xyz&error=access_denied'' \<lparr>clock = 100, wire = []\<rparr>
   = (Inl (LyftIllegalState CodeAndErrorBothSet), \<lparr>clock = 100, wire = []\<rparr>)
   \<and> verify_query
       \<lparr> g_client_id = ''id'', g_scopes = PSet {''public''}, g_client_secret = ''secret'',
         state_token = Some ''abc'' \<rparr>
       (extract_query (demo_env token_response token_response [(''state'', ''abc''), (''code'', ''xyz'')])
          ''https://app.example/cb?state=abc&code=xyz'')
     = Inr (Some ''xyz'')"
proof -
  let ?g = "\<lparr> g_client_id = ''id'', g_scopes = PSet {''public''}, g_client_secret = ''secret'',
       state_token = Some ''abc'' \<rparr>"
  let ?w = "\<lparr>clock = 100, wire = []\<rparr>"
  let ?E1 = "demo_env token_response token_response
        [(''state'', ''abc''), (''code'', ''xyz''), (''error'', ''access_denied'')]"
  let ?E2 = "demo_env token_response token_response [(''state'', ''abc''), (''code'', ''xyz'')]"
  let ?u1 = "''https://app.example/cb?state=abc&code=xyz&error=access_denied''"
  let ?u2 = "''https://app.example/cb?state=abc&code=xyz''"
  have n1: "\<forall>k v. extract_query ?E1 ?u1 k = Some v \<longrightarrow> v \<noteq> []"
    by (simp add: extract_query_def demo_env_def)
  have n2: "\<forall>k v. extract_query ?E2 ?u2 k = Some v \<longrightarrow> v \<noteq> []"
    by (simp add: extract_query_def demo_env_def)
  have s1: "extract_query ?E1 ?u1 ''state'' = Some ''abc''"
    by (simp add: extract_query_def demo_env_def)
  have s2: "extract_query ?E2 ?u2 ''state'' = Some ''abc''"
    by (simp add: extract_query_def demo_env_def)
  have t: "state_token ?g = Some ''abc''" by simp
  have c1: "extract_query ?E1 ?u1 ''code'' = Some ''xyz''"
    and e1: "extract_query ?E1 ?u1 ''error'' = Some ''access_denied''"
    by (simp_all add: extract_query_def demo_env_def)
  have c2: "extract_query ?E2 ?u2 ''code'' = Some ''xyz''"
    and e2: "extract_query ?E2 ?u2 ''error'' = None"
    by (simp_all add: extract_query_def demo_env_def)
  have a: "get_session ?E1 ?g ?u1 ?w = (Inl (LyftIllegalState CodeAndErrorBothSet), ?w)"
    using C4_code_and_error [OF n1 s1 t, where c = "''xyz''" and e = "''access_denied''" and w = ?w]
      c1 e1
    by simp
  have b: "verify_query ?g (extract_query ?E2 ?u2) = Inr (Some ''xyz'')"
    using C4_code_and_error [OF n2 s2 t, where c = "''xyz''" and e = "''''" and w = ?w] c2 e2
    by simp
  show ?thesis using a b by simp
qed

section \<open>The dispatch of the API client\<close>

lemma refresh_sends_one_request:
  assumes "grant_type c = AUTHORIZATION_CODE_GRANT \<or> grant_type c = CLIENT_CREDENTIAL_GRANT"
  shows "snd (refresh_access_token E c w) =
           w\<lparr>wire := wire w @
               [if grant_type c = AUTHORIZATION_CODE_GRANT
                then token_request E REFRESH_TOKEN (Some (client_id c)) (client_secret c) PNone None
                       (refresh_token c)
                else token_request E CLIENT_CREDENTIAL_GRANT (Some (client_id c)) (client_secret c)
                       (scopes c) None PNone]\<rparr>"
proof (cases "grant_type c = AUTHORIZATION_CODE_GRANT")
  case True
  then show ?thesis
    using refresh_authorization_code [OF True refl refl refl, of E w]
    by (simp split: sum.splits)
next
  case False
  with assms have g: "grant_type c = CLIENT_CREDENTIAL_GRANT" by simp
  show ?thesis
    using False refresh_client_credentials [OF g refl refl refl, of E w]
    by (simp split: sum.splits)
qed

text \<open>
  C2: \<open>_api_call\<close>, the dispatch that every method of the client ends with, tests the
  staleness of the held credential before the request is executed. With a credential
  that is not stale, the request is executed with the held session in the world as it
  was, and the client keeps its session. With a stale credential, \<open>refresh_access_token\<close>
  is applied once to the held credential: when it raises, the error is the outcome and
  nothing is executed; when it returns a session, the client holds that session and the
  request is executed with it, in the world that the refresh left. For the two grant
  types that can be refreshed, that world has exactly one more request on the wire, the
  token request. A credential constructed with a lifetime of zero seconds is stale at
  the time of its construction and at any later time, so the first call of a client
  that holds it takes the stale branch.
\<close>

theorem C2_api_call:
  "(\<not> is_stale w (oauth2credential (session self)) \<longrightarrow>
      api_call E execute self http_method target args w
        = (fst (execute (session self) (api_host self) http_method target args w), self,
           snd (execute (session self) (api_host self) http_method target args w)))
   \<and> (is_stale w (oauth2credential (session self)) \<longrightarrow>
        (\<forall>x w'. refresh_access_token E (oauth2credential (session self)) w = (Inl x, w') \<longrightarrow>
           api_call E execute self http_method target args w = (Inl x, self, w'))
      \<and> (\<forall>s w'. refresh_access_token E (oauth2credential (session self)) w = (Inr s, w') \<longrightarrow>
           api_call E execute self http_method target args w
             = (fst (execute s (api_host self) http_method target args w'), self\<lparr>session := s\<rparr>,
                snd (execute s (api_host self) http_method target args w')))
      \<and> (grant_type (oauth2credential (session self)) = AUTHORIZATION_CODE_GRANT
          \<or> grant_type (oauth2credential (session self)) = CLIENT_CREDENTIAL_GRANT \<longrightarrow>
           snd (refresh_access_token E (oauth2credential (session self)) w)
             = w\<lparr>wire := wire w @
                 [if grant_type (oauth2credential (session self)) = AUTHORIZATION_CODE_GRANT
                  then token_request E REFRESH_TOKEN
                         (Some (client_id (oauth2credential (session self))))
                         (client_secret (oauth2credential (session self))) PNone None
                         (refresh_token (oauth2credential (session self)))
                  else token_request E CLIENT_CREDENTIAL_GRANT
                         (Some (client_id (oauth2credential (session self))))
                         (client_secret (oauth2credential (session self)))
                         (scopes (oauth2credential (session self))) None PNone]\<rparr>))
   \<and> (clock w0 \<le> clock w \<longrightarrow>
        is_stale w (OAuth2Credential_init w0 cid tok 0 scs gt secret rtok))"
proof -
  let ?c = "oauth2credential (session self)"
  have a: "\<not> is_stale w ?c \<longrightarrow>
      api_call E execute self http_method target args w
        = (fst (execute (session self) (api_host self) http_method target args w), self,
           snd (execute (session self) (api_host self) http_method target args w))"
    by (simp add: api_call_def refresh_oauth_credential_def split: prod.splits)
  have b1: "is_stale w ?c \<longrightarrow>
        (\<forall>x w'. refresh_access_token E ?c w = (Inl x, w') \<longrightarrow>
           api_call E execute self http_method target args w = (Inl x, self, w'))"
    by (simp add: api_call_def refresh_oauth_credential_def)
  have b2: "is_stale w ?c \<longrightarrow>
        (\<forall>s w'. refresh_access_token E ?c w = (Inr s, w') \<longrightarrow>
           api_call E execute self http_method target args w
             = (fst (execute s (api_host self) http_method target args w'), self\<lparr>session := s\<rparr>,
                snd (execute s (api_host self) http_method target args w')))"
    by (simp add: api_call_def refresh_oauth_credential_def split: prod.splits)
  have b3: "grant_type ?c = AUTHORIZATION_CODE_GRANT \<or> grant_type ?c = CLIENT_CREDENTIAL_GRANT \<longrightarrow>
           snd (refresh_access_token E ?c w)
             = w\<lparr>wire := wire w @
                 [if grant_type ?c = AUTHORIZATION_CODE_GRANT
                  then token_request E REFRESH_TOKEN (Some (client_id ?c)) (client_secret ?c)
                         PNone None (refresh_token ?c)
                  else token_request E CLIENT_CREDENTIAL_GRANT (Some (client_id ?c))
                         (client_secret ?c) (scopes ?c) None PNone]\<rparr>"
    using refresh_sends_one_request [of ?c E w] by blast
  have c: "clock w0 \<le> clock w \<longrightarrow>
        is_stale w (OAuth2Credential_init w0 cid tok 0 scs gt secret rtok)"
    by (simp add: is_stale_def OAuth2Credential_init_def now_def)
  have b: "is_stale w ?c \<longrightarrow>
        (\<forall>x w'. refresh_access_token E ?c w = (Inl x, w') \<longrightarrow>
           api_call E execute self http_method target args w = (Inl x, self, w'))
      \<and> (\<forall>s w'. refresh_access_token E ?c w = (Inr s, w') \<longrightarrow>
           api_call E execute self http_method target args w
             = (fst (execute s (api_host self) http_method target args w'), self\<lparr>session := s\<rparr>,
                snd (execute s (api_host self) http_method target args w')))
      \<and> (grant_type ?c = AUTHORIZATION_CODE_GRANT \<or> grant_type ?c = CLIENT_CREDENTIAL_GRANT \<longrightarrow>
           snd (refresh_access_token E ?c w)
             = w\<lparr>wire := wire w @
                 [if grant_type ?c = AUTHORIZATION_CODE_GRANT
                  then token_request E REFRESH_TOKEN (Some (client_id ?c)) (client_secret ?c)
                         PNone None (refresh_token ?c)
                  else token_request E CLIENT_CREDENTIAL_GRANT (Some (client_id ?c))
                         (client_secret ?c) (scopes ?c) None PNone]\<rparr>)"
    using b1 b2 b3 by blast
  show ?thesis by (rule conjI [OF a conjI [OF b c]])
qed

text \<open>
  The scenario of the spec, with \<open>Request.execute\<close> as the spec describes it: a client
  whose credential was constructed with a lifetime of zero makes its first call. The
  wire then holds the token request followed by the resource request, which carries the
  new access token, and the client holds the refreshed session.
\<close>

theorem C2_api_call_witness:
  "api_call
     (demo_env token_response (json_response 200 ''OK'' (PDict [(''id'', PStr ''user-1'')])) [])
     (Request_execute
        (demo_env token_response (json_response 200 ''OK'' (PDict [(''id'', PStr ''user-1'')])) []))
     \<lparr> session =
         \<lparr> oauth2credential =
             OAuth2Credential_init \<lparr>clock = 100, wire = []\<rparr> ''id'' (PStr ''old-token'') 0
               (PSet {''public''}) CLIENT_CREDENTIAL_GRANT (Some ''secret'') PNone,
           token_type = OAUTH_TOKEN_TYPE \<rparr>,
       api_host = ''api.lyft.com'' \<rparr>
     ''GET'' ''v1/profile'' PNone \<lparr>clock = 100, wire = []\<rparr>
   = (Inr (json_response 200 ''OK'' (PDict [(''id'', PStr ''user-1'')])),
      \<lparr> session =
          \<lparr> oauth2credential =
              \<lparr> client_id = ''id'', access_token = PStr ''fresh-token'',
                expires_in_seconds = 3700, scopes = PSet {''public'', ''profile''},
                grant_type = CLIENT_CREDENTIAL_GRANT, client_secret = Some ''secret'',
                refresh_token = PStr ''refresh-2'' \<rparr>,
            token_type = OAUTH_TOKEN_TYPE \<rparr>,
        api_host = ''api.lyft.com'' \<rparr>,
      \<lparr> clock = 100,
        wire = [TokenPost (Some ''id'', Some ''secret'')
                  \<lparr> arg_grant_type = CLIENT_CREDENTIAL_GRANT, arg_client_id = Some ''id'',
                    arg_client_secret = Some ''secret'', arg_scope = PStr ''public'',
                    arg_code = None, arg_refresh_token = PNone \<rparr>,
                ApiRequest ''GET'' ''api.lyft.com'' ''v1/profile'' PNone (PStr ''fresh-token'')] \<rparr>)"
proof -
  let ?api = "json_response 200 ''OK'' (PDict [(''id'', PStr ''user-1'')])"
  let ?E = "demo_env token_response ?api []"
  let ?w = "\<lparr>clock = 100, wire = []\<rparr>"
  let ?c = "OAuth2Credential_init ?w ''id'' (PStr ''old-token'') 0
               (PSet {''public''}) CLIENT_CREDENTIAL_GRANT (Some ''secret'') PNone"
  let ?self = "\<lparr> session = \<lparr>oauth2credential = ?c, token_type = OAUTH_TOKEN_TYPE\<rparr>,
                  api_host = ''api.lyft.com'' \<rparr>"
  let ?rq = "TokenPost (Some ''id'', Some ''secret'')
                  \<lparr> arg_grant_type = CLIENT_CREDENTIAL_GRANT, arg_client_id = Some ''id'',
                    arg_client_secret = Some ''secret'', arg_scope = PStr ''public'',
                    arg_code = None, arg_refresh_token = PNone \<rparr>"
  let ?c' = "\<lparr> client_id = ''id'', access_token = PStr ''fresh-token'',
                expires_in_seconds = 3700, scopes = PSet {''public'', ''profile''},
                grant_type = CLIENT_CREDENTIAL_GRANT, client_secret = Some ''secret'',
                refresh_token = PStr ''refresh-2'' \<rparr>"
  let ?s' = "\<lparr>oauth2credential = ?c', token_type = OAUTH_TOKEN_TYPE\<rparr>"
  let ?w' = "\<lparr>clock = 100, wire = [?rq]\<rparr>"
  have stale: "is_stale ?w (oauth2credential (session ?self))"
    by (simp add: is_stale_def OAuth2Credential_init_def now_def)
  have g: "grant_type ?c = CLIENT_CREDENTIAL_GRANT"
    and i: "client_id ?c = ''id''" and k: "client_secret ?c = Some ''secret''"
    and sc: "scopes ?c = PSet {''public''}"
    by (simp_all add: OAuth2Credential_init_def)
  have rq: "token_request ?E CLIENT_CREDENTIAL_GRANT (Some (client_id ?c)) (client_secret ?c)
              (scopes ?c) None PNone = ?rq"
    by (simp add: token_request_def i k sc demo_env_def)
  have p: "post ?E (wire ?w) ?rq = token_response"
    by (simp add: demo_env_def)
  have st: "status_code token_response = 200"
    by (simp add: token_response_def json_response_def)
  have sp: "py_split ''public profile'' = [''public'', ''profile'']"
    by (simp add: py_split_def is_space_def)
  have m: "make_from_response ?E (?w\<lparr>wire := wire ?w @ [?rq]\<rparr>) token_response
             CLIENT_CREDENTIAL_GRANT ''id'' (Some ''secret'') = Inr ?c'"
    using sp
    by (simp add: make_from_response_def token_response_def json_response_def dict_get_def
        OAuth2Credential_init_def now_def)
  have r: "refresh_access_token ?E (oauth2credential (session ?self)) ?w = (Inr ?s', ?w')"
    using refresh_client_credentials [OF g rq [symmetric] refl refl, of ?w] p st m g i k
    by simp
  have x: "Request_execute ?E ?s' ''api.lyft.com'' ''GET'' ''v1/profile'' PNone ?w'
      = (Inr ?api,
         \<lparr>clock = 100, wire = [?rq, ApiRequest ''GET'' ''api.lyft.com'' ''v1/profile'' PNone
                                   (PStr ''fresh-token'')]\<rparr>)"
    by (simp add: Request_execute_def demo_env_def error_handler_def json_response_def)
  show ?thesis
    using C2_api_call [where E = ?E and execute = "Request_execute ?E"
        and self = ?self and http_method = "''GET''"
        and target = "''v1/profile''" and args = PNone and w = ?w
        and ?w0.0 = ?w and cid = "''id''" and tok = "PStr ''old-token''" and scs = "PSet {''public''}"
        and gt = CLIENT_CREDENTIAL_GRANT and secret = "Some ''secret''" and rtok = PNone]
      stale r x
    by simp
qed

section \<open>Saving and reloading a credential\<close>

text \<open>
  The identifiers, the tokens and the grant type survive the round trip through the
  stored record, and the scopes come back as a list.
\<close>

lemma save_load_fields:
  assumes "save_credential E c = Inr d"
  shows "client_id (load_credential w d) = client_id c"
    and "access_token (load_credential w d) = access_token c"
    and "grant_type (load_credential w d) = grant_type c"
    and "client_secret (load_credential w d) = client_secret c"
    and "refresh_token (load_credential w d) = refresh_token c"
  using assms
  by (auto simp: save_credential_def load_credential_def OAuth2Credential_init_def
      split: sum.splits)

lemma strings_of_map_PStr: "strings_of (map PStr xs) = xs"
  by (induction xs) simp_all

lemma save_load_scopes:
  assumes "save_credential E c = Inr d" and "scopes c = PSet S" and "set (set_iter E S) = S"
  shows "scope_elems (scopes (load_credential w d)) = scope_elems (scopes c)"
  using assms
  by (auto simp: save_credential_def load_credential_def OAuth2Credential_init_def py_list_def
      strings_of_map_PStr split: sum.splits)

text \<open>
  The stored \<open>expires_in_seconds\<close> is the attribute of the credential, which holds the
  absolute time of expiry; the constructor adds the time of loading to it.
\<close>

lemma save_load_expiry:
  assumes "save_credential E c = Inr d"
  shows "d_expires_in_seconds d = expires_in_seconds c"
    and "expires_in_seconds (load_credential w d) = clock w + expires_in_seconds c"
  using assms
  by (auto simp: save_credential_def load_credential_def OAuth2Credential_init_def now_def
      split: sum.splits)

text \<open>
  C6 at a concrete credential: constructed at time 1700000000 with a lifetime of 3600
  seconds, saved at once and loaded in the same second. The other fields come back, but
  the stored \<open>expires_in_seconds\<close> is 1700003600, not the 3600 seconds left to live, and
  the reloaded credential expires at 3400003600: its remaining lifetime is 1700003600
  seconds where the original had 3600.
\<close>

theorem C6_reloaded_expiry:
  "save_credential (demo_env token_response token_response [])
     (OAuth2Credential_init \<lparr>clock = 1700000000, wire = []\<rparr> ''id'' (PStr ''tok'') 3600
        (PSet {''public''}) AUTHORIZATION_CODE_GRANT (Some ''secret'') (PStr ''refresh-1''))
   = Inr \<lparr> d_client_id = ''id'', d_access_token = PStr ''tok'',
           d_expires_in_seconds = 1700003600, d_scopes = PList [PStr ''public''],
           d_grant_type = AUTHORIZATION_CODE_GRANT, d_client_secret = Some ''secret'',
           d_refresh_token = PStr ''refresh-1'' \<rparr>
   \<and> load_credential \<lparr>clock = 1700000000, wire = []\<rparr>
       \<lparr> d_client_id = ''id'', d_access_token = PStr ''tok'',
         d_expires_in_seconds = 1700003600, d_scopes = PList [PStr ''public''],
         d_grant_type = AUTHORIZATION_CODE_GRANT, d_client_secret = Some ''secret'',
         d_refresh_token = PStr ''refresh-1'' \<rparr>
     = \<lparr> client_id = ''id'', access_token = PStr ''tok'', expires_in_seconds = 3400003600,
         scopes = PList [PStr ''public''], grant_type = AUTHORIZATION_CODE_GRANT,
         client_secret = Some ''secret'', refresh_token = PStr ''refresh-1'' \<rparr>
   \<and> expires_in_seconds
       (OAuth2Credential_init \<lparr>clock = 1700000000, wire = []\<rparr> ''id'' (PStr ''tok'') 3600
          (PSet {''public''}) AUTHORIZATION_CODE_GRANT (Some ''secret'') (PStr ''refresh-1''))
       - 1700000000 = 3600
   \<and> (3400003600 :: int) - 1700000000 = 1700003600"
  by (simp add: save_credential_def load_credential_def OAuth2Credential_init_def now_def
      py_list_def demo_env_def)

end
